theory Spec2Isabelle
  imports Main
begin

section \<open>The host runtime\<close>

text \<open>
  The headers wrap the C API of CPython 2.7 (\<^verbatim>\<open>#include <Python.h>\<close>). A
  \<^verbatim>\<open>PyObject *\<close> is an address; \<^verbatim>\<open>NULL\<close> is address 0 and
  \<^verbatim>\<open>Py_None\<close> is the address of the one none object. An object carries its
  reference count, its type tag and the fields the wrapped API reads: the slots of a
  tuple, the value of an int, the attribute table, the referent of a weak reference and
  the native holder stored in an extension instance.
\<close>

type_synonym handle = nat

definition NULL :: handle where
  "NULL = 0"

definition Py_None :: handle where
  "Py_None = 1"

datatype py_type =
    NoneType | TupleType | DictType | IntType | FunctionType | WeakrefType
  | ExtensionType string

datatype py_exc = SystemError | IndexError | AttributeError | TypeError

record pyobj =
  ob_refcnt :: int
  ob_type :: py_type
  ob_item :: "handle list"
  ob_ival :: int
  ob_attr :: "string \<Rightarrow> handle"
  wr_object :: handle
  ob_holder :: nat
  ob_freed :: bool

text \<open>
  The interpreter state: the object at each address, the next address the allocator
  hands out, and the error indicator (\<^verbatim>\<open>PyErr_Occurred()\<close>).
\<close>

record runtime =
  objects :: "handle \<Rightarrow> pyobj"
  brk :: handle
  err :: "py_exc option"

definition Py_REFCNT :: "handle \<Rightarrow> runtime \<Rightarrow> int" where
  "Py_REFCNT op s = ob_refcnt (objects s op)"

definition Py_INCREF :: "handle \<Rightarrow> runtime \<Rightarrow> runtime" where
  "Py_INCREF op s =
     s\<lparr>objects := (objects s)(op := (objects s op)\<lparr>ob_refcnt := ob_refcnt (objects s op) + 1\<rparr>)\<rparr>"

text \<open>
  \<^verbatim>\<open>_Py_Dealloc\<close> releases the storage of an object whose count reached zero. What
  the type's deallocator does to other objects (a container dropping its items) is the
  interpreter's business and is not followed: the object is marked freed.
\<close>

definition Py_Dealloc :: "handle \<Rightarrow> runtime \<Rightarrow> runtime" where
  "Py_Dealloc op s = s\<lparr>objects := (objects s)(op := (objects s op)\<lparr>ob_freed := True\<rparr>)\<rparr>"

definition Py_DECREF :: "handle \<Rightarrow> runtime \<Rightarrow> runtime" where
  "Py_DECREF op s =
     (let s1 = s\<lparr>objects := (objects s)(op := (objects s op)\<lparr>ob_refcnt := ob_refcnt (objects s op) - 1\<rparr>)\<rparr>
      in if ob_refcnt (objects s1 op) = 0 then Py_Dealloc op s1 else s1)"

definition Py_XINCREF :: "handle \<Rightarrow> runtime \<Rightarrow> runtime" where
  "Py_XINCREF op s = (if op = NULL then s else Py_INCREF op s)"

definition Py_XDECREF :: "handle \<Rightarrow> runtime \<Rightarrow> runtime" where
  "Py_XDECREF op s = (if op = NULL then s else Py_DECREF op s)"

definition PyErr_Set :: "py_exc \<Rightarrow> runtime \<Rightarrow> runtime" where
  "PyErr_Set e s = s\<lparr>err := Some e\<rparr>"

section \<open>Native failures\<close>

text \<open>
  The C++ side reports failure by throwing. \<^verbatim>\<open>pyerr_occurred\<close> is the struct of
  the header, with its \<^verbatim>\<open>where\<close> field; \<^verbatim>\<open>runtime_error\<close> is
  \<^verbatim>\<open>std::runtime_error\<close> with its message. Reading through a null
  \<^verbatim>\<open>PyObject *\<close> throws nothing, but it ends the call all the same; it is kept
  apart as \<open>null_dereference\<close>. \<open>TypeMismatch\<close> is what the
  \<^verbatim>\<open>_throw\<close> functions raise (see there).
\<close>

datatype exn =
    pyerr_occurred "string option"
  | runtime_error string
  | TypeMismatch "string option"
  | null_dereference

section \<open>\<^verbatim>\<open>struct py_object\<close>\<close>

record py_object =
  ptr :: handle

text \<open>
  \<^verbatim>\<open>py_object::py_object(PyObject *x, bool increment_refcount)\<close>: a null
  \<^verbatim>\<open>x\<close> throws before anything is counted.
\<close>

definition py_object_ctor :: "handle \<Rightarrow> bool \<Rightarrow> runtime \<Rightarrow> (exn + py_object) \<times> runtime" where
  "py_object_ctor x increment_refcount s =
     (if x = NULL then (Inl (pyerr_occurred None), s)
      else if increment_refcount then (Inr \<lparr>ptr = x\<rparr>, Py_INCREF x s)
      else (Inr \<lparr>ptr = x\<rparr>, s))"

definition borrowed_reference :: "handle \<Rightarrow> runtime \<Rightarrow> (exn + py_object) \<times> runtime" where
  "borrowed_reference x s = py_object_ctor x True s"

definition new_reference :: "handle \<Rightarrow> runtime \<Rightarrow> (exn + py_object) \<times> runtime" where
  "new_reference x s = py_object_ctor x False s"

text \<open>\<^verbatim>\<open>py_object::py_object()\<close> delegates to \<^verbatim>\<open>py_object(Py_None, true)\<close>.\<close>

definition py_object_ctor_default :: "runtime \<Rightarrow> (exn + py_object) \<times> runtime" where
  "py_object_ctor_default s = py_object_ctor Py_None True s"

text \<open>
  \<^verbatim>\<open>py_object::~py_object()\<close>: \<^verbatim>\<open>Py_XDECREF(ptr)\<close>; the object is
  gone afterwards, so only the interpreter state is returned.
\<close>

definition py_object_dtor :: "py_object \<Rightarrow> runtime \<Rightarrow> runtime" where
  "py_object_dtor this s = Py_XDECREF (ptr this) s"

text \<open>\<^verbatim>\<open>py_object::py_object(const py_object &x)\<close> delegates to \<^verbatim>\<open>py_object(x.ptr, true)\<close>.\<close>

definition py_object_ctor_copy :: "py_object \<Rightarrow> runtime \<Rightarrow> (exn + py_object) \<times> runtime" where
  "py_object_ctor_copy x s = py_object_ctor (ptr x) True s"

text \<open>
  \<^verbatim>\<open>py_object::py_object(py_object &&x)\<close> takes the pointer and nulls the source:
  the result is the new object and what is left of \<^verbatim>\<open>x\<close>.
\<close>

definition py_object_ctor_move :: "py_object \<Rightarrow> runtime \<Rightarrow> (py_object \<times> py_object) \<times> runtime" where
  "py_object_ctor_move x s = ((\<lparr>ptr = ptr x\<rparr>, x\<lparr>ptr := NULL\<rparr>), s)"

text \<open>
  The assignment operators write through \<^verbatim>\<open>this\<close> and, when moving, through
  \<^verbatim>\<open>x\<close>, and the two may be the same object. The wrappers they work on therefore
  live in a frame, addressed by their location.
\<close>

type_synonym ref = nat
type_synonym frame = "ref \<Rightarrow> py_object"

definition py_object_assign_copy :: "ref \<Rightarrow> ref \<Rightarrow> frame \<Rightarrow> runtime \<Rightarrow> frame \<times> runtime" where
  "py_object_assign_copy this x \<sigma> s =
     (let s1 = Py_XINCREF (ptr (\<sigma> x)) s;
          s2 = Py_XDECREF (ptr (\<sigma> this)) s1;
          \<sigma>1 = \<sigma>(this := (\<sigma> this)\<lparr>ptr := ptr (\<sigma> x)\<rparr>)
      in (\<sigma>1, s2))"

definition py_object_assign_move :: "ref \<Rightarrow> ref \<Rightarrow> frame \<Rightarrow> runtime \<Rightarrow> frame \<times> runtime" where
  "py_object_assign_move this x \<sigma> s =
     (let \<sigma>1 = \<sigma>(this := (\<sigma> this)\<lparr>ptr := ptr (\<sigma> x)\<rparr>);
          \<sigma>2 = \<sigma>1(x := (\<sigma>1 x)\<lparr>ptr := NULL\<rparr>)
      in (\<sigma>2, s))"

definition is_none :: "py_object \<Rightarrow> bool" where
  "is_none this = (ptr this = Py_None)"

definition get_refcount :: "py_object \<Rightarrow> runtime \<Rightarrow> int" where
  "get_refcount this s = Py_REFCNT (ptr this) s"

section \<open>The tuple and dict interface of the runtime\<close>

text \<open>
  What the wrappers call, after CPython 2.7 (\<^verbatim>\<open>Objects/tupleobject.c\<close>) and the
  C API reference the header cites. Allocation takes the next free address and does not
  run out of memory. A new object has count 1. The type checks accept subtypes too; the
  model has one tag per built-in type.
\<close>

definition new_object :: "py_type \<Rightarrow> pyobj" where
  "new_object ty = \<lparr>ob_refcnt = 1, ob_type = ty, ob_item = [], ob_ival = 0,
     ob_attr = (\<lambda>_. NULL), wr_object = NULL, ob_holder = 0, ob_freed = False\<rparr>"

definition alloc :: "pyobj \<Rightarrow> runtime \<Rightarrow> handle \<times> runtime" where
  "alloc ob s = (brk s, s\<lparr>objects := (objects s)(brk s := ob), brk := brk s + 1\<rparr>)"

definition PyTuple_Check :: "handle \<Rightarrow> runtime \<Rightarrow> bool" where
  "PyTuple_Check op s = (ob_type (objects s op) = TupleType)"

definition PyDict_Check :: "handle \<Rightarrow> runtime \<Rightarrow> bool" where
  "PyDict_Check op s = (ob_type (objects s op) = DictType)"

text \<open>
  \<^verbatim>\<open>PyTuple_New(len)\<close>: a negative size is a bad internal call; otherwise a new
  tuple whose slots are all \<^verbatim>\<open>NULL\<close>
  (\<^verbatim>\<open>for (i=0; i < size; i++) op->ob_item[i] = NULL;\<close>). CPython hands out one
  shared tuple for size 0; the model allocates there as well.
\<close>

definition PyTuple_New :: "int \<Rightarrow> runtime \<Rightarrow> handle \<times> runtime" where
  "PyTuple_New len s =
     (if len < 0 then (NULL, PyErr_Set SystemError s)
      else alloc ((new_object TupleType)\<lparr>ob_item := replicate (nat len) NULL\<rparr>) s)"

definition PyDict_New :: "runtime \<Rightarrow> handle \<times> runtime" where
  "PyDict_New s = alloc (new_object DictType) s"

definition PyTuple_Size :: "handle \<Rightarrow> runtime \<Rightarrow> int \<times> runtime" where
  "PyTuple_Size op s =
     (if PyTuple_Check op s then (int (length (ob_item (objects s op))), s)
      else (- 1, PyErr_Set SystemError s))"

text \<open>
  \<^verbatim>\<open>PyTuple_GetItem(op, i)\<close> returns the slot as it is, a borrowed reference: no
  count is touched. Off the tuple it sets \<^verbatim>\<open>IndexError\<close> and returns
  \<^verbatim>\<open>NULL\<close>.
\<close>

definition PyTuple_GetItem :: "handle \<Rightarrow> int \<Rightarrow> runtime \<Rightarrow> handle \<times> runtime" where
  "PyTuple_GetItem op i s =
     (if PyTuple_Check op s then
        (if 0 \<le> i \<and> i < int (length (ob_item (objects s op)))
         then (ob_item (objects s op) ! nat i, s)
         else (NULL, PyErr_Set IndexError s))
      else (NULL, PyErr_Set SystemError s))"

text \<open>
  \<^verbatim>\<open>PyTuple_SetItem(op, i, newitem)\<close> steals the reference to
  \<^verbatim>\<open>newitem\<close>, also when it fails: it refuses (\<^verbatim>\<open>-1\<close>) a non-tuple,
  a tuple whose count is not 1 and a position off the tuple, and each refusal runs
  \<^verbatim>\<open>Py_XDECREF(newitem)\<close> first. On success the slot takes the handle and the
  old content of the slot is released.
\<close>

definition PyTuple_SetItem :: "handle \<Rightarrow> int \<Rightarrow> handle \<Rightarrow> runtime \<Rightarrow> int \<times> runtime" where
  "PyTuple_SetItem op i newitem s =
     (if PyTuple_Check op s \<and> ob_refcnt (objects s op) = 1 then
        (if 0 \<le> i \<and> i < int (length (ob_item (objects s op))) then
           (let olditem = ob_item (objects s op) ! nat i;
                s1 = s\<lparr>objects := (objects s)(op := (objects s op)
                       \<lparr>ob_item := (ob_item (objects s op))[nat i := newitem]\<rparr>)\<rparr>
            in (0, Py_XDECREF olditem s1))
         else (- 1, PyErr_Set IndexError (Py_XDECREF newitem s)))
      else (- 1, PyErr_Set SystemError (Py_XDECREF newitem s)))"

section \<open>\<^verbatim>\<open>struct py_tuple\<close>\<close>

text \<open>
  \<^verbatim>\<open>py_tuple\<close> and \<^verbatim>\<open>py_dict\<close> derive from
  \<^verbatim>\<open>py_object\<close> and add no member.
\<close>

type_synonym py_tuple = py_object
type_synonym py_dict = py_object

text \<open>
  Modelled from the spec: \<^verbatim>\<open>py_tuple::_throw(where)\<close> is declared in the header
  and defined in \<^verbatim>\<open>exceptions.cpp\<close>, which is not among the sources. The spec has
  a tag mismatch fail with \<open>TypeMismatch\<close> carrying a location label; the label is
  the argument \<^verbatim>\<open>where\<close>.
\<close>

definition py_tuple_throw :: "string option \<Rightarrow> exn" where
  "py_tuple_throw where' = TypeMismatch where'"

text \<open>
  Modelled from the spec: \<^verbatim>\<open>py_dict::_throw(where)\<close>, likewise declared in the
  header and defined in \<^verbatim>\<open>exceptions.cpp\<close>: \<open>TypeMismatch\<close> with the label
  it is given.
\<close>

definition py_dict_throw :: "string option \<Rightarrow> exn" where
  "py_dict_throw where' = TypeMismatch where'"

text \<open>
  \<^verbatim>\<open>py_tuple::_check(where)\<close>. \<^verbatim>\<open>PyTuple_Check\<close> reads the type through
  the pointer, so a wrapper left null by a move faults here.
\<close>

definition py_tuple_check :: "py_tuple \<Rightarrow> string option \<Rightarrow> runtime \<Rightarrow> exn + unit" where
  "py_tuple_check this where' s =
     (if ptr this = NULL then Inl null_dereference
      else if PyTuple_Check (ptr this) s then Inr ()
      else Inl (py_tuple_throw where'))"

text \<open>
  \<^verbatim>\<open>py_tuple::py_tuple(const py_object &x, const char *where)\<close>: the base is
  copy-constructed, then \<^verbatim>\<open>this->_check()\<close> runs with no argument, so
  \<^verbatim>\<open>_check\<close> sees its default \<^verbatim>\<open>where=NULL\<close>. When the check throws,
  the base that was already built is destroyed.
\<close>

definition py_tuple_ctor_copy :: "py_object \<Rightarrow> string option \<Rightarrow> runtime \<Rightarrow> (exn + py_tuple) \<times> runtime" where
  "py_tuple_ctor_copy x where' s =
     (case py_object_ctor_copy x s of
        (Inl e, s1) \<Rightarrow> (Inl e, s1)
      | (Inr this, s1) \<Rightarrow>
          (case py_tuple_check this None s1 of
             Inl e \<Rightarrow> (Inl e, py_object_dtor this s1)
           | Inr _ \<Rightarrow> (Inr this, s1)))"

text \<open>
  \<^verbatim>\<open>py_tuple::py_tuple(py_object &&x, const char *where)\<close> has the same
  initialiser \<^verbatim>\<open>py_object(x)\<close>: inside the constructor \<^verbatim>\<open>x\<close> is a
  named object, so this is again the copy constructor and \<^verbatim>\<open>x\<close> keeps its
  handle.
\<close>

definition py_tuple_ctor_move :: "py_object \<Rightarrow> string option \<Rightarrow> runtime \<Rightarrow> (exn + py_tuple) \<times> runtime" where
  "py_tuple_ctor_move x where' s =
     (case py_object_ctor_copy x s of
        (Inl e, s1) \<Rightarrow> (Inl e, s1)
      | (Inr this, s1) \<Rightarrow>
          (case py_tuple_check this None s1 of
             Inl e \<Rightarrow> (Inl e, py_object_dtor this s1)
           | Inr _ \<Rightarrow> (Inr this, s1)))"

text \<open>
  \<^verbatim>\<open>py_tuple::operator=(const py_object &x)\<close> and
  \<^verbatim>\<open>py_tuple::operator=(py_object &&x)\<close>: the bodies of the
  \<^verbatim>\<open>py_object\<close> operators, followed by \<^verbatim>\<open>this->_check()\<close>. They have
  no label to pass. When the check throws, the wrapper keeps the handle it was given.
\<close>

definition py_tuple_assign_copy :: "ref \<Rightarrow> ref \<Rightarrow> frame \<Rightarrow> runtime \<Rightarrow> (exn + unit) \<times> frame \<times> runtime" where
  "py_tuple_assign_copy this x \<sigma> s =
     (let s1 = Py_XINCREF (ptr (\<sigma> x)) s;
          s2 = Py_XDECREF (ptr (\<sigma> this)) s1;
          \<sigma>1 = \<sigma>(this := (\<sigma> this)\<lparr>ptr := ptr (\<sigma> x)\<rparr>)
      in (py_tuple_check (\<sigma>1 this) None s2, \<sigma>1, s2))"

definition py_tuple_assign_move :: "ref \<Rightarrow> ref \<Rightarrow> frame \<Rightarrow> runtime \<Rightarrow> (exn + unit) \<times> frame \<times> runtime" where
  "py_tuple_assign_move this x \<sigma> s =
     (let \<sigma>1 = \<sigma>(this := (\<sigma> this)\<lparr>ptr := ptr (\<sigma> x)\<rparr>);
          \<sigma>2 = \<sigma>1(x := (\<sigma>1 x)\<lparr>ptr := NULL\<rparr>)
      in (py_tuple_check (\<sigma>2 this) None s, \<sigma>2, s))"

definition py_tuple_size :: "py_tuple \<Rightarrow> runtime \<Rightarrow> int \<times> runtime" where
  "py_tuple_size this s = PyTuple_Size (ptr this) s"

text \<open>
  \<^verbatim>\<open>py_tuple::get_item(pos)\<close>:
  \<^verbatim>\<open>py_object::borrowed_reference(PyTuple_GetItem(this->ptr, pos))\<close>.
\<close>

definition py_tuple_get_item :: "py_tuple \<Rightarrow> int \<Rightarrow> runtime \<Rightarrow> (exn + py_object) \<times> runtime" where
  "py_tuple_get_item this pos s =
     (if ptr this = NULL then (Inl null_dereference, s)
      else case PyTuple_GetItem (ptr this) pos s of (p, s1) \<Rightarrow> borrowed_reference p s1)"

text \<open>
  \<^verbatim>\<open>py_tuple::set_item(pos, x)\<close>: the count of \<^verbatim>\<open>x\<close> is raised after
  \<^verbatim>\<open>PyTuple_SetItem\<close> reported success, and on failure nothing is done but the
  throw. (\<^verbatim>\<open>Py_INCREF\<close> is the unchecked macro: a null \<^verbatim>\<open>x.ptr\<close>
  faults.)
\<close>

definition py_tuple_set_item :: "py_tuple \<Rightarrow> int \<Rightarrow> py_object \<Rightarrow> runtime \<Rightarrow> (exn + unit) \<times> runtime" where
  "py_tuple_set_item this pos x s =
     (if ptr this = NULL then (Inl null_dereference, s)
      else case PyTuple_SetItem (ptr this) pos (ptr x) s of (er, s1) \<Rightarrow>
        (if er = 0 then
           (if ptr x = NULL then (Inl null_dereference, s1) else (Inr (), Py_INCREF (ptr x) s1))
         else (Inl (pyerr_occurred None), s1)))"

text \<open>
  \<^verbatim>\<open>py_tuple::make_empty(n)\<close>:
  \<^verbatim>\<open>return py_tuple::new_reference(PyTuple_New(n));\<close>. The
  \<^verbatim>\<open>py_object\<close> that \<^verbatim>\<open>new_reference\<close> returns is converted by
  \<^verbatim>\<open>py_tuple(py_object &&)\<close> and destroyed when the return statement ends.
\<close>

definition py_tuple_make_empty :: "int \<Rightarrow> runtime \<Rightarrow> (exn + py_tuple) \<times> runtime" where
  "py_tuple_make_empty n s =
     (case PyTuple_New n s of (p, s1) \<Rightarrow>
        (case new_reference p s1 of
           (Inl e, s2) \<Rightarrow> (Inl e, s2)
         | (Inr tmp, s2) \<Rightarrow>
             (case py_tuple_ctor_move tmp None s2 of
                (r, s3) \<Rightarrow> (r, py_object_dtor tmp s3))))"

text \<open>
  \<^verbatim>\<open>_set_tuple(t, pos, a, ap...)\<close> and \<^verbatim>\<open>py_tuple::make(args...)\<close>. The
  argument pack is a list; \<^verbatim>\<open>converter<A>::to_python\<close> is whatever is registered
  for the argument's type and is passed in. Its result is a temporary that dies at the
  end of the \<^verbatim>\<open>set_item\<close> statement, on either exit.
\<close>

type_synonym 'a to_python = "'a \<Rightarrow> runtime \<Rightarrow> (exn + py_object) \<times> runtime"

fun set_tuple :: "'a to_python \<Rightarrow> py_tuple \<Rightarrow> int \<Rightarrow> 'a list \<Rightarrow> runtime \<Rightarrow> (exn + unit) \<times> runtime" where
  "set_tuple cv t pos [] s = (Inr (), s)"
| "set_tuple cv t pos (a # ap) s =
     (case cv a s of
        (Inl e, s1) \<Rightarrow> (Inl e, s1)
      | (Inr x, s1) \<Rightarrow>
          (case py_tuple_set_item t pos x s1 of
             (Inl e, s2) \<Rightarrow> (Inl e, py_object_dtor x s2)
           | (Inr _, s2) \<Rightarrow> set_tuple cv t (pos + 1) ap (py_object_dtor x s2)))"

definition py_tuple_make :: "'a to_python \<Rightarrow> 'a list \<Rightarrow> runtime \<Rightarrow> (exn + py_tuple) \<times> runtime" where
  "py_tuple_make cv args s =
     (case py_tuple_make_empty (int (length args)) s of
        (Inl e, s1) \<Rightarrow> (Inl e, s1)
      | (Inr ret, s1) \<Rightarrow>
          (case set_tuple cv ret 0 args s1 of
             (Inl e, s2) \<Rightarrow> (Inl e, py_object_dtor ret s2)
           | (Inr _, s2) \<Rightarrow> (Inr ret, s2)))"

section \<open>\<^verbatim>\<open>struct py_dict\<close>\<close>

text \<open>
  The members of \<^verbatim>\<open>py_dict\<close> repeat those of \<^verbatim>\<open>py_tuple\<close> line for
  line, with \<^verbatim>\<open>PyDict_Check\<close> as the test.
\<close>

definition py_dict_check :: "py_dict \<Rightarrow> string option \<Rightarrow> runtime \<Rightarrow> exn + unit" where
  "py_dict_check this where' s =
     (if ptr this = NULL then Inl null_dereference
      else if PyDict_Check (ptr this) s then Inr ()
      else Inl (py_dict_throw where'))"

text \<open>\<^verbatim>\<open>py_dict::py_dict()\<close>: \<^verbatim>\<open>py_object(PyDict_New(), false)\<close>.\<close>

definition py_dict_ctor_default :: "runtime \<Rightarrow> (exn + py_dict) \<times> runtime" where
  "py_dict_ctor_default s = (case PyDict_New s of (p, s1) \<Rightarrow> py_object_ctor p False s1)"

definition py_dict_ctor_copy :: "py_object \<Rightarrow> string option \<Rightarrow> runtime \<Rightarrow> (exn + py_dict) \<times> runtime" where
  "py_dict_ctor_copy x where' s =
     (case py_object_ctor_copy x s of
        (Inl e, s1) \<Rightarrow> (Inl e, s1)
      | (Inr this, s1) \<Rightarrow>
          (case py_dict_check this None s1 of
             Inl e \<Rightarrow> (Inl e, py_object_dtor this s1)
           | Inr _ \<Rightarrow> (Inr this, s1)))"

definition py_dict_ctor_move :: "py_object \<Rightarrow> string option \<Rightarrow> runtime \<Rightarrow> (exn + py_dict) \<times> runtime" where
  "py_dict_ctor_move x where' s =
     (case py_object_ctor_copy x s of
        (Inl e, s1) \<Rightarrow> (Inl e, s1)
      | (Inr this, s1) \<Rightarrow>
          (case py_dict_check this None s1 of
             Inl e \<Rightarrow> (Inl e, py_object_dtor this s1)
           | Inr _ \<Rightarrow> (Inr this, s1)))"

definition py_dict_assign_copy :: "ref \<Rightarrow> ref \<Rightarrow> frame \<Rightarrow> runtime \<Rightarrow> (exn + unit) \<times> frame \<times> runtime" where
  "py_dict_assign_copy this x \<sigma> s =
     (let s1 = Py_XINCREF (ptr (\<sigma> x)) s;
          s2 = Py_XDECREF (ptr (\<sigma> this)) s1;
          \<sigma>1 = \<sigma>(this := (\<sigma> this)\<lparr>ptr := ptr (\<sigma> x)\<rparr>)
      in (py_dict_check (\<sigma>1 this) None s2, \<sigma>1, s2))"

definition py_dict_assign_move :: "ref \<Rightarrow> ref \<Rightarrow> frame \<Rightarrow> runtime \<Rightarrow> (exn + unit) \<times> frame \<times> runtime" where
  "py_dict_assign_move this x \<sigma> s =
     (let \<sigma>1 = \<sigma>(this := (\<sigma> this)\<lparr>ptr := ptr (\<sigma> x)\<rparr>);
          \<sigma>2 = \<sigma>1(x := (\<sigma>1 x)\<lparr>ptr := NULL\<rparr>)
      in (py_dict_check (\<sigma>2 this) None s, \<sigma>2, s))"

section \<open>Converters\<close>

text \<open>
  Modelled from the spec: \<^verbatim>\<open>converter<T>::to_python\<close>. The template
  \<^verbatim>\<open>converter\<close> is only declared in the header; its entries live in
  \<^verbatim>\<open>pyclops/converters.hpp\<close>, which is not among the sources. The spec describes
  an entry as a pair of pure functions, \<open>to_dynamic: T -> ManagedValue\<close> being one.
  So \<open>to_python box\<close> hands out a new reference to a fresh object whose content
  \<open>box\<close> fixes from the value alone, or fails with the condition \<open>box\<close> names.
\<close>

definition to_python :: "('a \<Rightarrow> exn + pyobj) \<Rightarrow> 'a to_python" where
  "to_python box a s =
     (case box a of
        Inl e \<Rightarrow> (Inl e, s)
      | Inr ob \<Rightarrow> (case alloc (ob\<lparr>ob_refcnt := 1\<rparr>) s of (p, s1) \<Rightarrow> new_reference p s1))"

type_synonym 'r from_python = "py_object \<Rightarrow> string option \<Rightarrow> runtime \<Rightarrow> (exn + 'r) \<times> runtime"

text \<open>
  Modelled from the spec: \<^verbatim>\<open>converter<T>::from_python\<close>, the other half of an
  entry, \<open>from_dynamic: (ManagedValue, context_label) -> T\<close>. It reads the value back
  from the object and fails with \<open>TypeMismatch\<close> and the label where \<open>unbox\<close>
  has no answer.
\<close>

definition from_python :: "(pyobj \<Rightarrow> 'r option) \<Rightarrow> 'r from_python" where
  "from_python unbox obj where' s =
     (case unbox (objects s (ptr obj)) of
        None \<Rightarrow> (Inl (TypeMismatch where'), s)
      | Some v \<Rightarrow> (Inr v, s))"

text \<open>
  Modelled from the spec: the entry for \<^verbatim>\<open>ssize_t\<close>, which the example module
  uses and \<^verbatim>\<open>pyclops/converters.hpp\<close> would define: an int object with the value.
\<close>

definition box_ssize_t :: "int \<Rightarrow> exn + pyobj" where
  "box_ssize_t n = Inr ((new_object IntType)\<lparr>ob_ival := n\<rparr>)"

text \<open>
  Modelled from the spec: the way back for \<^verbatim>\<open>ssize_t\<close>: the value of an int
  object, and no answer for any other object.
\<close>

definition unbox_ssize_t :: "pyobj \<Rightarrow> int option" where
  "unbox_ssize_t ob = (if ob_type ob = IntType then Some (ob_ival ob) else None)"

section \<open>The example module: \<^verbatim>\<open>struct X\<close> and its converters\<close>

text \<open>
  \<^verbatim>\<open>struct X { ssize_t x; ... }\<close>. Native objects owned through
  \<^verbatim>\<open>shared_ptr<X>\<close> live in cells of the native heap, and a
  \<^verbatim>\<open>shared_ptr<X>\<close> is the address of its cell. The copy constructor of
  \<^verbatim>\<open>X\<close> announces itself on \<^verbatim>\<open>cout\<close>; the model counts its calls.
\<close>

record X =
  X_x :: int

record native =
  X_cells :: "nat \<Rightarrow> X"
  X_top :: nat
  X_copies :: nat

definition X_ctor_copy :: "X \<Rightarrow> native \<Rightarrow> X \<times> native" where
  "X_ctor_copy x' h = (\<lparr>X_x = X_x x'\<rparr>, h\<lparr>X_copies := X_copies h + 1\<rparr>)"

text \<open>\<^verbatim>\<open>make_shared<X>(x)\<close>: a new cell, copy-constructed from \<^verbatim>\<open>x\<close>.\<close>

definition make_shared_X :: "X \<Rightarrow> native \<Rightarrow> nat \<times> native" where
  "make_shared_X v h =
     (case X_ctor_copy v h of (c, h1) \<Rightarrow>
        (X_top h1, h1\<lparr>X_cells := (X_cells h1)(X_top h1 := c), X_top := X_top h1 + 1\<rparr>))"

text \<open>
  Modelled from the spec: \<^verbatim>\<open>extension_type<T>::to_python(tobj, p)\<close> is called by
  the converters of \<^verbatim>\<open>X\<close> but defined in a header that is not among the
  sources. After the spec's TypeBinding: a proxy object of the bound type, with the
  shared holder stored inside the proxy's storage.
\<close>

definition extension_type_to_python :: "py_type \<Rightarrow> nat \<Rightarrow> runtime \<Rightarrow> (exn + py_object) \<times> runtime" where
  "extension_type_to_python tobj p s =
     (case alloc ((new_object tobj)\<lparr>ob_holder := p\<rparr>) s of (q, s1) \<Rightarrow> new_reference q s1)"

text \<open>
  Modelled from the spec: \<^verbatim>\<open>extension_type<T>::shared_ptr_from_python(tobj, obj,
  where)\<close>, from the same missing header. After the spec's TypeBinding: extraction
  validates that the runtime type tag matches the descriptor (\<open>TypeMismatch\<close> on
  failure) and returns the stored holder, never copying the pointee.
\<close>

definition shared_ptr_from_python :: "py_type \<Rightarrow> py_object \<Rightarrow> string option \<Rightarrow> runtime \<Rightarrow> exn + nat" where
  "shared_ptr_from_python tobj obj where' s =
     (if ob_type (objects s (ptr obj)) = tobj then Inr (ob_holder (objects s (ptr obj)))
      else Inl (TypeMismatch where'))"

text \<open>
  Modelled from the spec: \<^verbatim>\<open>X_type.tobj\<close>, the runtime type record of
  \<^verbatim>\<open>static extension_type<X> X_type("X", ...)\<close>; the member \<^verbatim>\<open>tobj\<close>
  comes from the missing header.
\<close>

definition X_type_tobj :: py_type where
  "X_type_tobj = ExtensionType ''X''"

text \<open>
  \<^verbatim>\<open>converter<X>\<close>: \<^verbatim>\<open>from_python\<close> returns \<^verbatim>\<open>*p\<close> by value (a copy
  of the pointee); \<^verbatim>\<open>to_python\<close> boxes \<^verbatim>\<open>make_shared<X>(x)\<close>.
\<close>

definition converter_X_from_python ::
    "py_object \<Rightarrow> string option \<Rightarrow> native \<Rightarrow> runtime \<Rightarrow> (exn + X) \<times> native \<times> runtime" where
  "converter_X_from_python obj where' h s =
     (case shared_ptr_from_python X_type_tobj obj where' s of
        Inl e \<Rightarrow> (Inl e, h, s)
      | Inr p \<Rightarrow> (case X_ctor_copy (X_cells h p) h of (v, h1) \<Rightarrow> (Inr v, h1, s)))"

definition converter_X_to_python ::
    "X \<Rightarrow> native \<Rightarrow> runtime \<Rightarrow> (exn + py_object) \<times> native \<times> runtime" where
  "converter_X_to_python x' h s =
     (case make_shared_X x' h of (p, h1) \<Rightarrow>
        (case extension_type_to_python X_type_tobj p s of (r, s1) \<Rightarrow> (r, h1, s1)))"

text \<open>\<^verbatim>\<open>converter<shared_ptr<X>>\<close> passes the holder through in both directions.\<close>

definition converter_shared_ptr_X_from_python ::
    "py_object \<Rightarrow> string option \<Rightarrow> native \<Rightarrow> runtime \<Rightarrow> (exn + nat) \<times> native \<times> runtime" where
  "converter_shared_ptr_X_from_python obj where' h s =
     (shared_ptr_from_python X_type_tobj obj where' s, h, s)"

definition converter_shared_ptr_X_to_python ::
    "nat \<Rightarrow> native \<Rightarrow> runtime \<Rightarrow> (exn + py_object) \<times> native \<times> runtime" where
  "converter_shared_ptr_X_to_python x' h s =
     (case extension_type_to_python X_type_tobj x' s of (r, s1) \<Rightarrow> (r, h, s1))"

section \<open>The example module: \<^verbatim>\<open>PyBase::f\<close>\<close>

text \<open>
  \<^verbatim>\<open>PyObject_GetAttrString(o, name)\<close> returns a new reference to the attribute, or
  \<^verbatim>\<open>NULL\<close> with \<^verbatim>\<open>AttributeError\<close> set. \<^verbatim>\<open>PyObject_Call\<close> runs
  interpreter code; what a callable does is a parameter \<open>PyObject_Call\<close> of the
  functions that call.
\<close>

definition PyObject_GetAttrString :: "handle \<Rightarrow> string \<Rightarrow> runtime \<Rightarrow> handle \<times> runtime" where
  "PyObject_GetAttrString op name s =
     (if ob_attr (objects s op) name = NULL then (NULL, PyErr_Set AttributeError s)
      else (ob_attr (objects s op) name, Py_INCREF (ob_attr (objects s op) name) s))"

type_synonym pycall = "handle \<Rightarrow> handle \<Rightarrow> handle \<Rightarrow> runtime \<Rightarrow> handle \<times> runtime"

text \<open>\<^verbatim>\<open>py_object::call(args)\<close>: \<^verbatim>\<open>new_reference(PyObject_Call(ptr, args.ptr, NULL))\<close>.\<close>

definition py_object_call :: "pycall \<Rightarrow> py_object \<Rightarrow> py_tuple \<Rightarrow> runtime \<Rightarrow> (exn + py_object) \<times> runtime" where
  "py_object_call PyObject_Call this args s =
     (case PyObject_Call (ptr this) (ptr args) NULL s of (p, s1) \<Rightarrow> new_reference p s1)"

text \<open>
  Modelled from the spec: \<^verbatim>\<open>py_weakref\<close> is used by \<^verbatim>\<open>PyBase\<close> but defined
  in a header that is not among the sources. The spec's back-reference is non-owning and
  is validated before use; \<^verbatim>\<open>PyBase::f\<close> tests the result of
  \<^verbatim>\<open>dereference()\<close> with \<^verbatim>\<open>is_none()\<close>. So \<^verbatim>\<open>dereference\<close> is a
  borrowed reference to the referent recorded in the weak reference object, which is the
  none object once the proxy is gone.
\<close>

type_synonym py_weakref = py_object

definition py_weakref_dereference :: "py_weakref \<Rightarrow> runtime \<Rightarrow> (exn + py_object) \<times> runtime" where
  "py_weakref_dereference this s = borrowed_reference (wr_object (objects s (ptr this))) s"

text \<open>
  \<^verbatim>\<open>PyBase::f(n)\<close>. The locals \<^verbatim>\<open>obj\<close>, \<^verbatim>\<open>func\<close>,
  \<^verbatim>\<open>args\<close> and the temporary result of \<^verbatim>\<open>func.call(args)\<close> are destroyed on
  every exit, in reverse order of construction. The two converters of
  \<^verbatim>\<open>ssize_t\<close> are passed in.
\<close>

definition PyBase_f :: "pycall \<Rightarrow> int to_python \<Rightarrow> int from_python \<Rightarrow> py_weakref \<Rightarrow> int \<Rightarrow> runtime
    \<Rightarrow> (exn + int) \<times> runtime" where
  "PyBase_f PyObject_Call to_py from_py weakref n s =
     (case py_weakref_dereference weakref s of
        (Inl e, s1) \<Rightarrow> (Inl e, s1)
      | (Inr obj, s1) \<Rightarrow>
          if is_none obj
          then (Inl (runtime_error ''PyBase.f(): weak reference expired!''), py_object_dtor obj s1)
          else (case PyObject_GetAttrString (ptr obj) ''f'' s1 of (fp, s2) \<Rightarrow>
            if fp = NULL
            then (Inl (runtime_error ''Base.f: pure virtual, but not defined in subclass''),
                  py_object_dtor obj s2)
            else (case new_reference fp s2 of
                (Inl e, s3) \<Rightarrow> (Inl e, py_object_dtor obj s3)
              | (Inr func, s3) \<Rightarrow>
                  (case py_tuple_make to_py [n] s3 of
                     (Inl e, s4) \<Rightarrow> (Inl e, py_object_dtor obj (py_object_dtor func s4))
                   | (Inr args, s4) \<Rightarrow>
                       (case py_object_call PyObject_Call func args s4 of
                          (Inl e, s5) \<Rightarrow>
                            (Inl e, py_object_dtor obj (py_object_dtor func (py_object_dtor args s5)))
                        | (Inr res, s5) \<Rightarrow>
                            (case from_py res (Some ''Base.f'') s5 of (r, s6) \<Rightarrow>
                               (r, py_object_dtor obj (py_object_dtor func
                                     (py_object_dtor args (py_object_dtor res s6))))))))))"

section \<open>States along \<^verbatim>\<open>py_tuple::make\<close>\<close>

text \<open>
  Three notions for the proofs about \<^verbatim>\<open>make\<close>: the state right after
  \<^verbatim>\<open>make_empty(n)\<close>, the state after one round of \<^verbatim>\<open>_set_tuple\<close> stored a
  fresh object in slot \<open>k\<close>, and what stays true of the tuple under construction.
\<close>

definition empty_tuple :: "nat \<Rightarrow> runtime \<Rightarrow> runtime" where
  "empty_tuple n s =
     s\<lparr>objects := (objects s)(brk s := (new_object TupleType)\<lparr>ob_item := replicate n NULL\<rparr>),
       brk := brk s + 1\<rparr>"

definition slot_filled :: "handle \<Rightarrow> nat \<Rightarrow> pyobj \<Rightarrow> runtime \<Rightarrow> runtime" where
  "slot_filled p k ob s =
     s\<lparr>objects := (objects s)
          (brk s := ob\<lparr>ob_refcnt := 1\<rparr>,
           p := (objects s p)\<lparr>ob_item := (ob_item (objects s p))[k := brk s]\<rparr>),
       brk := brk s + 1\<rparr>"

definition filling :: "handle \<Rightarrow> runtime \<Rightarrow> bool" where
  "filling p s \<longleftrightarrow> p \<noteq> NULL \<and> p < brk s \<and> ob_type (objects s p) = TupleType
     \<and> ob_refcnt (objects s p) = 1"

section \<open>A small interpreter state for the examples\<close>

text \<open>
  \<open>rt0\<close> holds the none object only. \<open>rt1\<close> adds a one-slot tuple at address 2,
  its slot still \<^verbatim>\<open>NULL\<close>, and an int object 7 at address 3, each with count 1.
\<close>

definition none_object :: pyobj where
  "none_object = new_object NoneType"

definition rt0 :: runtime where
  "rt0 = \<lparr>objects = (\<lambda>_. none_object), brk = 2, err = None\<rparr>"

definition rt1 :: runtime where
  "rt1 = \<lparr>objects = (\<lambda>_. none_object)
            (2 := (new_object TupleType)\<lparr>ob_item := [NULL]\<rparr>,
             3 := (new_object IntType)\<lparr>ob_ival := 7\<rparr>),
          brk = 4, err = None\<rparr>"

text \<open>\<open>rt2\<close> is \<open>rt1\<close> with the int stored in the slot of the tuple.\<close>

definition rt2 :: runtime where
  "rt2 = \<lparr>objects = (\<lambda>_. none_object)
            (2 := (new_object TupleType)\<lparr>ob_item := [3]\<rparr>,
             3 := (new_object IntType)\<lparr>ob_ival := 7\<rparr>),
          brk = 4, err = None\<rparr>"

text \<open>
  Arguments for \<^verbatim>\<open>make\<close>: an \<^verbatim>\<open>ssize_t\<close>, or a value whose conversion
  fails inside the runtime.
\<close>

datatype arg = Ssize int | Broken

fun box_arg :: "arg \<Rightarrow> exn + pyobj" where
  "box_arg (Ssize n) = box_ssize_t n"
| "box_arg Broken = Inl (pyerr_occurred None)"

text \<open>
  For \<^verbatim>\<open>PyBase::f\<close>: a proxy at address 2 whose attribute \<^verbatim>\<open>f\<close> is
  \<open>fattr\<close>, a function object at 3, and at 4 the weak reference, whose referent is
  \<open>referent\<close>. The function of the example returns its argument.
\<close>

definition rt_dispatch :: "handle \<Rightarrow> handle \<Rightarrow> runtime" where
  "rt_dispatch referent fattr = \<lparr>objects = (\<lambda>_. none_object)
       (2 := (new_object (ExtensionType ''Base''))\<lparr>ob_attr := (\<lambda>_. NULL)(''f'' := fattr)\<rparr>,
        3 := new_object FunctionType,
        4 := (new_object WeakrefType)\<lparr>wr_object := referent\<rparr>),
     brk = 5, err = None\<rparr>"

definition call_identity :: pycall where
  "call_identity callable args kw s =
     (ob_item (objects s args) ! 0, Py_INCREF (ob_item (objects s args) ! 0) s)"

definition native0 :: native where
  "native0 = \<lparr>X_cells = (\<lambda>_. \<lparr>X_x = 0\<rparr>), X_top = 0, X_copies = 0\<rparr>"

section \<open>Unfolding\<close>

lemmas host_defs = PyTuple_New_def PyTuple_GetItem_def PyTuple_SetItem_def PyTuple_Size_def
  PyTuple_Check_def PyDict_Check_def PyDict_New_def alloc_def new_object_def PyErr_Set_def
  Py_INCREF_def Py_DECREF_def Py_XINCREF_def Py_XDECREF_def Py_Dealloc_def Py_REFCNT_def
  NULL_def Py_None_def

lemmas wrap_defs = py_object_ctor_def borrowed_reference_def new_reference_def
  py_object_ctor_copy_def py_object_ctor_default_def py_object_dtor_def
  py_object_ctor_move_def py_object_assign_copy_def py_object_assign_move_def
  py_tuple_throw_def py_dict_throw_def py_tuple_check_def py_dict_check_def
  py_tuple_ctor_copy_def py_tuple_ctor_move_def py_tuple_assign_copy_def
  py_tuple_assign_move_def py_tuple_size_def py_tuple_get_item_def py_tuple_set_item_def
  py_tuple_make_empty_def py_tuple_make_def py_dict_ctor_copy_def py_dict_ctor_move_def
  py_dict_assign_copy_def py_dict_assign_move_def py_dict_ctor_default_def

lemmas example_defs = rt0_def rt1_def rt2_def none_object_def

section \<open>Reference counts\<close>

lemma Py_None_not_NULL [simp]: "Py_None \<noteq> NULL"
  by (simp add: Py_None_def NULL_def)

lemma refcnt_INCREF [simp]:
  "Py_REFCNT g (Py_INCREF h s) = (if g = h then Py_REFCNT h s + 1 else Py_REFCNT g s)"
  by (simp add: Py_REFCNT_def Py_INCREF_def)

lemma refcnt_DECREF [simp]:
  "Py_REFCNT g (Py_DECREF h s) = (if g = h then Py_REFCNT h s - 1 else Py_REFCNT g s)"
  by (simp add: Py_REFCNT_def Py_DECREF_def Py_Dealloc_def Let_def)

text \<open>
  C1. Constructing a \<^verbatim>\<open>py_object\<close> from a null handle throws
  \<^verbatim>\<open>pyerr_occurred\<close> (with no location), whatever the counting mode; and every
  construction that succeeds (from a raw handle, as a borrowed or a new reference, by
  copy, by default) yields a wrapper whose handle is not null. Default construction
  always succeeds.
\<close>

theorem construction_never_wraps_null:
  "py_object_ctor NULL inc s = (Inl (pyerr_occurred None), s)
   \<and> borrowed_reference NULL s = (Inl (pyerr_occurred None), s)
   \<and> new_reference NULL s = (Inl (pyerr_occurred None), s)
   \<and> py_object_ctor_copy \<lparr>ptr = NULL\<rparr> s = (Inl (pyerr_occurred None), s)
   \<and> (py_object_ctor x inc s = (Inr v1, s1) \<longrightarrow> ptr v1 \<noteq> NULL)
   \<and> (borrowed_reference x s = (Inr v2, s2) \<longrightarrow> ptr v2 \<noteq> NULL)
   \<and> (new_reference x s = (Inr v3, s3) \<longrightarrow> ptr v3 \<noteq> NULL)
   \<and> (py_object_ctor_copy y s = (Inr v4, s4) \<longrightarrow> ptr v4 \<noteq> NULL)
   \<and> (py_object_ctor_default s = (Inr v5, s5) \<longrightarrow> ptr v5 \<noteq> NULL)
   \<and> (\<exists>w t. py_object_ctor_default s = (Inr w, t))"
  by (auto simp: py_object_ctor_def borrowed_reference_def new_reference_def
      py_object_ctor_copy_def py_object_ctor_default_def split: if_splits)

theorem construction_never_wraps_null_witness:
  "py_object_ctor Py_None True rt0 = (Inr \<lparr>ptr = Py_None\<rparr>, Py_INCREF Py_None rt0)
   \<and> borrowed_reference Py_None rt0 = (Inr \<lparr>ptr = Py_None\<rparr>, Py_INCREF Py_None rt0)
   \<and> new_reference Py_None rt0 = (Inr \<lparr>ptr = Py_None\<rparr>, rt0)
   \<and> py_object_ctor_copy \<lparr>ptr = Py_None\<rparr> rt0 = (Inr \<lparr>ptr = Py_None\<rparr>, Py_INCREF Py_None rt0)
   \<and> py_object_ctor_default rt0 = (Inr \<lparr>ptr = Py_None\<rparr>, Py_INCREF Py_None rt0)
   \<and> ptr \<lparr>ptr = Py_None\<rparr> \<noteq> NULL"
  using construction_never_wraps_null [of True rt0 Py_None "\<lparr>ptr = Py_None\<rparr>" "Py_INCREF Py_None rt0"
      "\<lparr>ptr = Py_None\<rparr>" "Py_INCREF Py_None rt0" "\<lparr>ptr = Py_None\<rparr>" rt0
      "\<lparr>ptr = Py_None\<rparr>" "\<lparr>ptr = Py_None\<rparr>" "Py_INCREF Py_None rt0"
      "\<lparr>ptr = Py_None\<rparr>" "Py_INCREF Py_None rt0"]
  by (simp add: py_object_ctor_def borrowed_reference_def new_reference_def
      py_object_ctor_copy_def py_object_ctor_default_def)

text \<open>
  C2. For a handle \<open>h\<close> that is not null: a borrowed reference raises the count of
  \<open>h\<close> by one, a new reference leaves it, copy construction raises it by one, move
  construction and move assignment leave it, and destroying a wrapper that holds \<open>h\<close>
  lowers it by one.
\<close>

theorem lifecycle_refcount_deltas:
  "h \<noteq> NULL \<Longrightarrow>
     (\<exists>s1. borrowed_reference h s = (Inr \<lparr>ptr = h\<rparr>, s1) \<and> Py_REFCNT h s1 = Py_REFCNT h s + 1)
   \<and> (\<exists>s2. new_reference h s = (Inr \<lparr>ptr = h\<rparr>, s2) \<and> Py_REFCNT h s2 = Py_REFCNT h s)
   \<and> (\<exists>s3. py_object_ctor_copy \<lparr>ptr = h\<rparr> s = (Inr \<lparr>ptr = h\<rparr>, s3)
          \<and> Py_REFCNT h s3 = Py_REFCNT h s + 1)
   \<and> (\<exists>s4. py_object_ctor_move \<lparr>ptr = h\<rparr> s = ((\<lparr>ptr = h\<rparr>, \<lparr>ptr = NULL\<rparr>), s4)
          \<and> Py_REFCNT h s4 = Py_REFCNT h s)
   \<and> Py_REFCNT h (snd (py_object_assign_move this x \<sigma> s)) = Py_REFCNT h s
   \<and> Py_REFCNT h (py_object_dtor \<lparr>ptr = h\<rparr> s) = Py_REFCNT h s - 1"
  by (simp add: borrowed_reference_def new_reference_def py_object_ctor_def
      py_object_ctor_copy_def py_object_ctor_move_def py_object_assign_move_def
      py_object_dtor_def Py_XDECREF_def Let_def)

theorem lifecycle_refcount_deltas_witness:
  "Py_None \<noteq> NULL
   \<and> Py_REFCNT Py_None (snd (borrowed_reference Py_None rt0)) = 2
   \<and> Py_REFCNT Py_None (snd (new_reference Py_None rt0)) = 1
   \<and> Py_REFCNT Py_None (snd (py_object_ctor_copy \<lparr>ptr = Py_None\<rparr> rt0)) = 2
   \<and> Py_REFCNT Py_None (snd (py_object_ctor_move \<lparr>ptr = Py_None\<rparr> rt0)) = 1
   \<and> Py_REFCNT Py_None (snd (py_object_assign_move 0 1 (\<lambda>_. \<lparr>ptr = Py_None\<rparr>) rt0)) = 1
   \<and> Py_REFCNT Py_None (py_object_dtor \<lparr>ptr = Py_None\<rparr> rt0) = 0"
proof -
  have rc: "Py_REFCNT Py_None rt0 = 1"
    by (simp add: Py_REFCNT_def rt0_def none_object_def new_object_def)
  from lifecycle_refcount_deltas [OF Py_None_not_NULL, of rt0 0 1 "\<lambda>_. \<lparr>ptr = Py_None\<rparr>"]
  show ?thesis
    by (auto simp: rc)
qed

section \<open>Positional access\<close>

text \<open>
  C10. For a tuple wrapper that holds a handle and a position outside
  \<open>[0, size)\<close>, \<^verbatim>\<open>PyTuple_GetItem\<close> yields \<^verbatim>\<open>NULL\<close>, and
  \<^verbatim>\<open>get_item\<close> throws \<^verbatim>\<open>pyerr_occurred\<close> with the error indicator
  set; and whenever \<^verbatim>\<open>get_item\<close> returns a wrapper, at any position, its
  handle is not null.
\<close>

theorem get_item_out_of_range:
  "ptr t \<noteq> NULL \<Longrightarrow> pos < 0 \<or> fst (py_tuple_size t s) \<le> pos \<Longrightarrow>
     fst (PyTuple_GetItem (ptr t) pos s) = NULL
   \<and> fst (py_tuple_get_item t pos s) = Inl (pyerr_occurred None)
   \<and> err (snd (py_tuple_get_item t pos s)) \<noteq> None
   \<and> (\<forall>q v s'. py_tuple_get_item t q s = (Inr v, s') \<longrightarrow> ptr v \<noteq> NULL)"
  by (auto simp: py_tuple_get_item_def py_tuple_size_def PyTuple_GetItem_def PyTuple_Size_def
      borrowed_reference_def py_object_ctor_def PyErr_Set_def split: if_splits)

theorem get_item_out_of_range_witness:
  "ptr \<lparr>ptr = 2\<rparr> \<noteq> NULL
   \<and> py_tuple_size \<lparr>ptr = 2\<rparr> rt1 = (1, rt1)
   \<and> py_tuple_get_item \<lparr>ptr = 2\<rparr> 1 rt1 = (Inl (pyerr_occurred None), PyErr_Set IndexError rt1)
   \<and> py_tuple_get_item \<lparr>ptr = 2\<rparr> (- 1) rt1 = (Inl (pyerr_occurred None), PyErr_Set IndexError rt1)
   \<and> py_tuple_get_item \<lparr>ptr = 2\<rparr> 0 rt2 = (Inr \<lparr>ptr = 3\<rparr>, Py_INCREF 3 rt2)
   \<and> ptr \<lparr>ptr = 3\<rparr> \<noteq> NULL"
proof -
  have sz: "py_tuple_size \<lparr>ptr = 2\<rparr> rt1 = (1, rt1)"
    by (simp add: host_defs wrap_defs example_defs)
  have nn: "ptr \<lparr>ptr = 2\<rparr> \<noteq> NULL"
    by (simp add: NULL_def)
  have a: "fst (py_tuple_get_item \<lparr>ptr = 2\<rparr> 1 rt1) = Inl (pyerr_occurred None)"
    using get_item_out_of_range [OF nn, of 1 rt1] by (simp add: sz)
  have b: "fst (py_tuple_get_item \<lparr>ptr = 2\<rparr> (- 1) rt1) = Inl (pyerr_occurred None)"
    using get_item_out_of_range [OF nn, of "- 1" rt1] by simp
  have c: "snd (py_tuple_get_item \<lparr>ptr = 2\<rparr> 1 rt1) = PyErr_Set IndexError rt1"
    by (simp add: host_defs wrap_defs example_defs)
  have d: "snd (py_tuple_get_item \<lparr>ptr = 2\<rparr> (- 1) rt1) = PyErr_Set IndexError rt1"
    by (simp add: host_defs wrap_defs example_defs)
  have e: "py_tuple_get_item \<lparr>ptr = 2\<rparr> 0 rt2 = (Inr \<lparr>ptr = 3\<rparr>, Py_INCREF 3 rt2)"
    by (simp add: host_defs wrap_defs example_defs)
  have f: "ptr \<lparr>ptr = 3\<rparr> \<noteq> NULL"
    by (simp add: NULL_def)
  from a b c d e f sz nn show ?thesis
    by (simp add: prod_eq_iff)
qed

section \<open>Building a tuple\<close>

text \<open>
  One round of \<^verbatim>\<open>_set_tuple\<close> on a tuple that is being filled: the converted
  value is stored in the slot, and after the temporary is gone the new object has count
  1, owned by the slot.
\<close>

lemma set_tuple_step:
  assumes "box a = Inr ob" "p \<noteq> NULL" "p < brk s"
    "ob_type (objects s p) = TupleType" "ob_refcnt (objects s p) = 1"
    "k < length (ob_item (objects s p))" "ob_item (objects s p) ! k = NULL"
  shows "set_tuple (to_python box) \<lparr>ptr = p\<rparr> (int k) (a # ap) s
       = set_tuple (to_python box) \<lparr>ptr = p\<rparr> (int k + 1) ap (slot_filled p k ob s)"
proof -
  have b: "brk s \<noteq> NULL" "brk s \<noteq> p"
    using assms by (auto simp: NULL_def)
  have cv: "to_python box a s = (Inr \<lparr>ptr = brk s\<rparr>,
      s\<lparr>objects := (objects s)(brk s := ob\<lparr>ob_refcnt := 1\<rparr>), brk := brk s + 1\<rparr>)"
    using assms(1) b by (simp add: to_python_def alloc_def new_reference_def py_object_ctor_def)
  let ?s1 = "s\<lparr>objects := (objects s)(brk s := ob\<lparr>ob_refcnt := 1\<rparr>), brk := brk s + 1\<rparr>"
  have si: "py_tuple_set_item \<lparr>ptr = p\<rparr> (int k) \<lparr>ptr = brk s\<rparr> ?s1
      = (Inr (), Py_INCREF (brk s) (?s1\<lparr>objects := (objects ?s1)(p := (objects ?s1 p)
             \<lparr>ob_item := (ob_item (objects ?s1 p))[k := brk s]\<rparr>)\<rparr>))"
    using assms b
    by (simp add: py_tuple_set_item_def PyTuple_SetItem_def PyTuple_Check_def Py_XDECREF_def Let_def)
  have fin: "py_object_dtor \<lparr>ptr = brk s\<rparr> (Py_INCREF (brk s) (?s1\<lparr>objects := (objects ?s1)(p := (objects ?s1 p)
             \<lparr>ob_item := (ob_item (objects ?s1 p))[k := brk s]\<rparr>)\<rparr>)) = slot_filled p k ob s"
    using b
    by (auto simp: py_object_dtor_def Py_XDECREF_def Py_DECREF_def Py_INCREF_def Py_Dealloc_def
        slot_filled_def Let_def fun_eq_iff)
  show ?thesis
    by (simp only: set_tuple.simps cv si fin prod.case sum.case)
qed


text \<open>
  A prefix of the arguments whose conversions all succeed fills its slots with
  consecutive fresh objects and leaves the rest of the state alone.
\<close>

lemma set_tuple_prefix:
  assumes "\<forall>b\<in>set pre. \<exists>ob. box b = Inr ob"
    and "filling p s"
    and "k + length pre \<le> length (ob_item (objects s p))"
    and "\<forall>j. k \<le> j \<and> j < length (ob_item (objects s p)) \<longrightarrow> ob_item (objects s p) ! j = NULL"
  shows "\<exists>s'. set_tuple (to_python box) \<lparr>ptr = p\<rparr> (int k) (pre @ rest) s
               = set_tuple (to_python box) \<lparr>ptr = p\<rparr> (int (k + length pre)) rest s'
           \<and> filling p s'
           \<and> brk s' = brk s + length pre
           \<and> err s' = err s
           \<and> length (ob_item (objects s' p)) = length (ob_item (objects s p))
           \<and> (\<forall>j<length (ob_item (objects s p)). ob_item (objects s' p) ! j =
                 (if k \<le> j \<and> j < k + length pre then brk s + (j - k) else ob_item (objects s p) ! j))
           \<and> (\<forall>i<length pre. \<forall>ob. box (pre ! i) = Inr ob \<longrightarrow>
                 objects s' (brk s + i) = ob\<lparr>ob_refcnt := 1\<rparr>)
           \<and> (\<forall>q<brk s. q \<noteq> p \<longrightarrow> objects s' q = objects s q)"
  using assms
proof (induction pre arbitrary: k s)
  case Nil
  then show ?case by (intro exI [of _ s]) simp
next
  case (Cons a pre)
  from Cons.prems(1) obtain ob where ob: "box a = Inr ob" by auto
  let ?items = "ob_item (objects s p)"
  let ?s1 = "slot_filled p k ob s"
  from Cons.prems have f: "p \<noteq> NULL" "p < brk s" "ob_type (objects s p) = TupleType"
    "ob_refcnt (objects s p) = 1" and k: "k < length ?items" and z: "?items ! k = NULL"
    by (auto simp: filling_def)
  have step: "set_tuple (to_python box) \<lparr>ptr = p\<rparr> (int k) ((a # pre) @ rest) s
       = set_tuple (to_python box) \<lparr>ptr = p\<rparr> (int (Suc k)) (pre @ rest) ?s1"
    using set_tuple_step [of box a ob p s k "pre @ rest"] ob f k z by (simp add: add.commute)
  have o1: "objects ?s1 p = (objects s p)\<lparr>ob_item := ?items[k := brk s]\<rparr>"
    and ob1: "objects ?s1 (brk s) = ob\<lparr>ob_refcnt := 1\<rparr>"
    and fr1: "\<And>q. q < brk s \<Longrightarrow> q \<noteq> p \<Longrightarrow> objects ?s1 q = objects s q"
    and b1: "brk ?s1 = Suc (brk s)" and e1: "err ?s1 = err s"
    using f by (auto simp: slot_filled_def)
  have f1: "filling p ?s1"
    using f by (simp add: filling_def o1 b1)
  have len1: "Suc k + length pre \<le> length (ob_item (objects ?s1 p))"
    using Cons.prems(3) by (simp add: o1)
  have z1: "\<forall>j. Suc k \<le> j \<and> j < length (ob_item (objects ?s1 p)) \<longrightarrow> ob_item (objects ?s1 p) ! j = NULL"
    using Cons.prems(4) by (simp add: o1)
  from Cons.prems(1) have pre: "\<forall>b\<in>set pre. \<exists>ob. box b = Inr ob" by simp
  from Cons.IH [OF pre f1 len1 z1] obtain s' where
    run: "set_tuple (to_python box) \<lparr>ptr = p\<rparr> (int (Suc k)) (pre @ rest) ?s1
            = set_tuple (to_python box) \<lparr>ptr = p\<rparr> (int (Suc k + length pre)) rest s'"
    and f': "filling p s'"
    and b': "brk s' = brk ?s1 + length pre"
    and e': "err s' = err ?s1"
    and l': "length (ob_item (objects s' p)) = length (ob_item (objects ?s1 p))"
    and it': "\<forall>j<length (ob_item (objects ?s1 p)). ob_item (objects s' p) ! j =
                 (if Suc k \<le> j \<and> j < Suc k + length pre then brk ?s1 + (j - Suc k)
                  else ob_item (objects ?s1 p) ! j)"
    and ob': "\<forall>i<length pre. \<forall>ob. box (pre ! i) = Inr ob \<longrightarrow>
                 objects s' (brk ?s1 + i) = ob\<lparr>ob_refcnt := 1\<rparr>"
    and fr': "\<forall>q<brk ?s1. q \<noteq> p \<longrightarrow> objects s' q = objects ?s1 q"
    by blast
  have g1: "set_tuple (to_python box) \<lparr>ptr = p\<rparr> (int k) ((a # pre) @ rest) s
       = set_tuple (to_python box) \<lparr>ptr = p\<rparr> (int (k + length (a # pre))) rest s'"
    using step run by simp
  have g3: "brk s' = brk s + length (a # pre)"
    using b' b1 by simp
  have g4: "err s' = err s"
    using e' e1 by simp
  have g5: "length (ob_item (objects s' p)) = length ?items"
    using l' by (simp add: o1)
  have g6: "\<forall>j<length ?items. ob_item (objects s' p) ! j =
      (if k \<le> j \<and> j < k + length (a # pre) then brk s + (j - k) else ?items ! j)"
  proof (intro allI impI)
    fix j assume j: "j < length ?items"
    then have "ob_item (objects s' p) ! j =
        (if Suc k \<le> j \<and> j < Suc k + length pre then brk ?s1 + (j - Suc k)
         else ob_item (objects ?s1 p) ! j)"
      using it' by (simp add: o1)
    then show "ob_item (objects s' p) ! j =
        (if k \<le> j \<and> j < k + length (a # pre) then brk s + (j - k) else ?items ! j)"
      using j k by (cases "j = k") (auto simp: o1 b1)
  qed
  have g7: "\<forall>i<length (a # pre). \<forall>ob'. box ((a # pre) ! i) = Inr ob' \<longrightarrow>
      objects s' (brk s + i) = ob'\<lparr>ob_refcnt := 1\<rparr>"
  proof (intro allI impI)
    fix i ob' assume i: "i < length (a # pre)" and bx: "box ((a # pre) ! i) = Inr ob'"
    show "objects s' (brk s + i) = ob'\<lparr>ob_refcnt := 1\<rparr>"
    proof (cases i)
      case 0
      have "objects s' (brk s) = objects ?s1 (brk s)"
        using fr' f(2) by (simp add: b1)
      with 0 bx ob ob1 show ?thesis by auto
    next
      case (Suc m)
      with i bx have "objects s' (brk ?s1 + m) = ob'\<lparr>ob_refcnt := 1\<rparr>"
        using ob' by simp
      with Suc show ?thesis by (simp add: b1)
    qed
  qed
  have g8: "\<forall>q<brk s. q \<noteq> p \<longrightarrow> objects s' q = objects s q"
    using fr' fr1 by (simp add: b1)
  from g1 f' g3 g4 g5 g6 g7 g8 show ?case by blast
qed


lemma make_empty_fresh:
  assumes "brk s \<noteq> NULL"
  shows "py_tuple_make_empty (int n) s = (Inr \<lparr>ptr = brk s\<rparr>, empty_tuple n s)"
  using assms
  by (auto simp: py_tuple_make_empty_def PyTuple_New_def alloc_def new_reference_def
      py_object_ctor_def py_tuple_ctor_move_def py_object_ctor_copy_def py_tuple_check_def
      PyTuple_Check_def py_object_dtor_def Py_XDECREF_def Py_DECREF_def Py_INCREF_def
      Py_Dealloc_def new_object_def empty_tuple_def Let_def fun_eq_iff)

lemma empty_tuple_filling:
  assumes "brk s \<noteq> NULL"
  shows "filling (brk s) (empty_tuple n s)"
    and "ob_item (objects (empty_tuple n s) (brk s)) = replicate n NULL"
    and "brk (empty_tuple n s) = brk s + 1"
    and "err (empty_tuple n s) = err s"
  using assms by (simp_all add: filling_def empty_tuple_def new_object_def)

lemma make_success:
  assumes nn: "brk s \<noteq> NULL" and ok: "\<forall>a\<in>set args. \<exists>ob. box a = Inr ob"
  shows "\<exists>s'. py_tuple_make (to_python box) args s = (Inr \<lparr>ptr = brk s\<rparr>, s')
      \<and> py_tuple_size \<lparr>ptr = brk s\<rparr> s' = (int (length args), s')
      \<and> (\<forall>i<length args.
            py_tuple_get_item \<lparr>ptr = brk s\<rparr> (int i) s'
              = (Inr \<lparr>ptr = brk s + 1 + i\<rparr>, Py_INCREF (brk s + 1 + i) s')
          \<and> (\<forall>ob. box (args ! i) = Inr ob \<longrightarrow> objects s' (brk s + 1 + i) = ob\<lparr>ob_refcnt := 1\<rparr>))
      \<and> Py_REFCNT (brk s) s' = 1 \<and> err s' = err s \<and> brk s' = brk s + 1 + length args"
proof -
  let ?p = "brk s" and ?s1 = "empty_tuple (length args) s"
  note e = empty_tuple_filling [OF nn]
  have len: "0 + length args \<le> length (ob_item (objects ?s1 ?p))"
    and z: "\<forall>j. 0 \<le> j \<and> j < length (ob_item (objects ?s1 ?p)) \<longrightarrow> ob_item (objects ?s1 ?p) ! j = NULL"
    by (simp_all add: e(2))
  from set_tuple_prefix [OF ok e(1) len z, of "[]"] obtain s' where
    run: "set_tuple (to_python box) \<lparr>ptr = ?p\<rparr> 0 args ?s1 = (Inr (), s')"
    and f': "filling ?p s'"
    and b': "brk s' = brk ?s1 + length args"
    and e': "err s' = err ?s1"
    and l': "length (ob_item (objects s' ?p)) = length (ob_item (objects ?s1 ?p))"
    and it': "\<forall>j<length (ob_item (objects ?s1 ?p)). ob_item (objects s' ?p) ! j =
                 (if 0 \<le> j \<and> j < 0 + length args then brk ?s1 + (j - 0)
                  else ob_item (objects ?s1 ?p) ! j)"
    and ob': "\<forall>i<length args. \<forall>ob. box (args ! i) = Inr ob \<longrightarrow>
                 objects s' (brk ?s1 + i) = ob\<lparr>ob_refcnt := 1\<rparr>"
    by auto
  have mk: "py_tuple_make (to_python box) args s = (Inr \<lparr>ptr = ?p\<rparr>, s')"
    by (simp add: py_tuple_make_def make_empty_fresh [OF nn] run)
  have sz: "py_tuple_size \<lparr>ptr = ?p\<rparr> s' = (int (length args), s')"
    using f' l' by (simp add: py_tuple_size_def PyTuple_Size_def PyTuple_Check_def filling_def e(2))
  have gi: "py_tuple_get_item \<lparr>ptr = ?p\<rparr> (int i) s'
              = (Inr \<lparr>ptr = ?p + 1 + i\<rparr>, Py_INCREF (?p + 1 + i) s')" if "i < length args" for i
    using that f' l' it' nn
    by (simp add: py_tuple_get_item_def PyTuple_GetItem_def PyTuple_Check_def filling_def e(2) e(3)
        borrowed_reference_def py_object_ctor_def NULL_def)
  have rc: "Py_REFCNT ?p s' = 1"
    using f' by (simp add: filling_def Py_REFCNT_def)
  from mk sz gi ob' rc e' b' show ?thesis
    by (auto simp: e(3) e(4))
qed

lemma make_failure:
  assumes nn: "brk s \<noteq> NULL" and args: "args = pre @ a # post"
    and ok: "\<forall>b\<in>set pre. \<exists>ob. box b = Inr ob" and bad: "box a = Inl e"
  shows "fst (py_tuple_make (to_python box) args s) = Inl e
      \<and> brk (snd (py_tuple_make (to_python box) args s)) = brk s + 1 + length pre
      \<and> (\<exists>s1 s2. py_tuple_make_empty (int (length args)) s = (Inr \<lparr>ptr = brk s\<rparr>, s1)
            \<and> set_tuple (to_python box) \<lparr>ptr = brk s\<rparr> 0 args s1 = (Inl e, s2)
            \<and> ob_item (objects s2 (brk s))
                = map (\<lambda>i. brk s + 1 + i) [0..<length pre] @ replicate (Suc (length post)) NULL
            \<and> (\<forall>i<length pre. \<forall>ob. box (pre ! i) = Inr ob \<longrightarrow>
                  objects s2 (brk s + 1 + i) = ob\<lparr>ob_refcnt := 1\<rparr>))"
proof -
  let ?p = "brk s" and ?s1 = "empty_tuple (length args) s"
  note e = empty_tuple_filling [OF nn]
  have z: "\<forall>j. 0 \<le> j \<and> j < length (ob_item (objects ?s1 ?p)) \<longrightarrow> ob_item (objects ?s1 ?p) ! j = NULL"
    by (simp add: e(2))
  have len: "0 + length pre \<le> length (ob_item (objects ?s1 ?p))"
    by (simp add: e(2) args)
  have stop: "set_tuple (to_python box) t k (a # post) s' = (Inl e, s')" for t k s'
    by (simp add: to_python_def bad)
  from set_tuple_prefix [OF ok e(1) len z, of "a # post"] obtain s' where
    run0: "set_tuple (to_python box) \<lparr>ptr = ?p\<rparr> (int 0) (pre @ a # post) ?s1
            = set_tuple (to_python box) \<lparr>ptr = ?p\<rparr> (int (0 + length pre)) (a # post) s'"
    and b': "brk s' = brk ?s1 + length pre"
    and l': "length (ob_item (objects s' ?p)) = length (ob_item (objects ?s1 ?p))"
    and it': "\<forall>j<length (ob_item (objects ?s1 ?p)). ob_item (objects s' ?p) ! j =
                 (if 0 \<le> j \<and> j < 0 + length pre then brk ?s1 + (j - 0)
                  else ob_item (objects ?s1 ?p) ! j)"
    and ob': "\<forall>i<length pre. \<forall>ob. box (pre ! i) = Inr ob \<longrightarrow>
                 objects s' (brk ?s1 + i) = ob\<lparr>ob_refcnt := 1\<rparr>"
    by blast
  have run: "set_tuple (to_python box) \<lparr>ptr = ?p\<rparr> 0 args ?s1 = (Inl e, s')"
    using run0 by (simp only: stop args of_nat_0)
  have mk: "py_tuple_make (to_python box) args s = (Inl e, py_object_dtor \<lparr>ptr = ?p\<rparr> s')"
    by (simp add: py_tuple_make_def make_empty_fresh [OF nn] run)
  have bd: "brk (py_object_dtor x s') = brk s'" for x
    by (simp add: py_object_dtor_def Py_XDECREF_def Py_DECREF_def Py_Dealloc_def Let_def)
  have items: "ob_item (objects s' ?p)
      = map (\<lambda>i. ?p + 1 + i) [0..<length pre] @ replicate (Suc (length post)) NULL"
  proof (rule nth_equalityI)
    show "length (ob_item (objects s' ?p))
        = length (map (\<lambda>i. ?p + 1 + i) [0..<length pre] @ replicate (Suc (length post)) NULL)"
      using l' by (simp add: e(2) args)
  next
    fix j assume "j < length (ob_item (objects s' ?p))"
    then have j: "j < length args"
      using l' by (simp add: e(2))
    then have "ob_item (objects s' ?p) ! j = (if j < length pre then ?p + 1 + j else NULL)"
      using it' by (simp add: e(2) e(3) del: replicate_Suc)
    moreover have "j - length pre < Suc (length post)" if "\<not> j < length pre"
      using j that by (simp add: args)
    ultimately show "ob_item (objects s' ?p) ! j
        = (map (\<lambda>i. ?p + 1 + i) [0..<length pre] @ replicate (Suc (length post)) NULL) ! j"
      by (simp add: nth_append del: replicate_Suc)
  qed
  from mk b' items ob' run show ?thesis
    by (auto simp: bd e(3) make_empty_fresh [OF nn])
qed


text \<open>
  C6. With the allocator handing out non-null addresses and converters as the spec
  describes them: when every argument converts, \<^verbatim>\<open>make(a1, ..., an)\<close> returns a
  tuple of size \<open>n\<close> whose slot \<open>i\<close> holds the object converted from the
  \<open>i\<close>-th argument, allocated in argument order and owned by the slot. When the
  conversion of the argument after \<open>pre\<close> fails with \<open>e\<close>, \<^verbatim>\<open>make\<close>
  throws \<open>e\<close>; at that point \<^verbatim>\<open>_set_tuple\<close> had filled exactly the slots of
  \<open>pre\<close>, the later slots are still \<^verbatim>\<open>NULL\<close>, and nothing was allocated for a
  later argument.
\<close>

theorem make_fills_slots_in_order:
  "brk s \<noteq> NULL \<Longrightarrow>
     ((\<forall>a\<in>set args. \<exists>ob. box a = Inr ob) \<longrightarrow>
        (\<exists>s'. py_tuple_make (to_python box) args s = (Inr \<lparr>ptr = brk s\<rparr>, s')
           \<and> py_tuple_size \<lparr>ptr = brk s\<rparr> s' = (int (length args), s')
           \<and> (\<forall>i<length args.
                 py_tuple_get_item \<lparr>ptr = brk s\<rparr> (int i) s'
                   = (Inr \<lparr>ptr = brk s + 1 + i\<rparr>, Py_INCREF (brk s + 1 + i) s')
               \<and> (\<forall>ob. box (args ! i) = Inr ob \<longrightarrow>
                     objects s' (brk s + 1 + i) = ob\<lparr>ob_refcnt := 1\<rparr>))
           \<and> Py_REFCNT (brk s) s' = 1 \<and> err s' = err s \<and> brk s' = brk s + 1 + length args))
   \<and> (\<forall>pre a post e.
         args = pre @ a # post \<and> (\<forall>b\<in>set pre. \<exists>ob. box b = Inr ob) \<and> box a = Inl e \<longrightarrow>
           fst (py_tuple_make (to_python box) args s) = Inl e
         \<and> brk (snd (py_tuple_make (to_python box) args s)) = brk s + 1 + length pre
         \<and> (\<exists>s1 s2. py_tuple_make_empty (int (length args)) s = (Inr \<lparr>ptr = brk s\<rparr>, s1)
               \<and> set_tuple (to_python box) \<lparr>ptr = brk s\<rparr> 0 args s1 = (Inl e, s2)
               \<and> ob_item (objects s2 (brk s))
                   = map (\<lambda>i. brk s + 1 + i) [0..<length pre] @ replicate (Suc (length post)) NULL
               \<and> (\<forall>i<length pre. \<forall>ob. box (pre ! i) = Inr ob \<longrightarrow>
                     objects s2 (brk s + 1 + i) = ob\<lparr>ob_refcnt := 1\<rparr>)))"
proof (intro conjI impI allI)
  assume "brk s \<noteq> NULL" "\<forall>a\<in>set args. \<exists>ob. box a = Inr ob"
  then show "\<exists>s'. py_tuple_make (to_python box) args s = (Inr \<lparr>ptr = brk s\<rparr>, s')
           \<and> py_tuple_size \<lparr>ptr = brk s\<rparr> s' = (int (length args), s')
           \<and> (\<forall>i<length args.
                 py_tuple_get_item \<lparr>ptr = brk s\<rparr> (int i) s'
                   = (Inr \<lparr>ptr = brk s + 1 + i\<rparr>, Py_INCREF (brk s + 1 + i) s')
               \<and> (\<forall>ob. box (args ! i) = Inr ob \<longrightarrow>
                     objects s' (brk s + 1 + i) = ob\<lparr>ob_refcnt := 1\<rparr>))
           \<and> Py_REFCNT (brk s) s' = 1 \<and> err s' = err s \<and> brk s' = brk s + 1 + length args"
    by (rule make_success)
next
  fix pre a post e
  assume nn: "brk s \<noteq> NULL"
    and h: "args = pre @ a # post \<and> (\<forall>b\<in>set pre. \<exists>ob. box b = Inr ob) \<and> box a = Inl e"
  from h have 1: "args = pre @ a # post" and 2: "\<forall>b\<in>set pre. \<exists>ob. box b = Inr ob"
    and 3: "box a = Inl e"
    by simp_all
  note f = make_failure [OF nn 1 2 3]
  from f show "fst (py_tuple_make (to_python box) args s) = Inl e" by blast
  from f show "brk (snd (py_tuple_make (to_python box) args s)) = brk s + 1 + length pre" by blast
  from f show "\<exists>s1 s2. py_tuple_make_empty (int (length args)) s = (Inr \<lparr>ptr = brk s\<rparr>, s1)
               \<and> set_tuple (to_python box) \<lparr>ptr = brk s\<rparr> 0 args s1 = (Inl e, s2)
               \<and> ob_item (objects s2 (brk s))
                   = map (\<lambda>i. brk s + 1 + i) [0..<length pre] @ replicate (Suc (length post)) NULL
               \<and> (\<forall>i<length pre. \<forall>ob. box (pre ! i) = Inr ob \<longrightarrow>
                     objects s2 (brk s + 1 + i) = ob\<lparr>ob_refcnt := 1\<rparr>)"
    by blast
qed

theorem make_fills_slots_in_order_witness:
  "brk rt0 \<noteq> NULL
   \<and> fst (py_tuple_make (to_python box_arg) [Ssize 2, Ssize 3] rt0) = Inr \<lparr>ptr = 2\<rparr>
   \<and> py_tuple_size \<lparr>ptr = 2\<rparr> (snd (py_tuple_make (to_python box_arg) [Ssize 2, Ssize 3] rt0))
       = (2, snd (py_tuple_make (to_python box_arg) [Ssize 2, Ssize 3] rt0))
   \<and> fst (py_tuple_get_item \<lparr>ptr = 2\<rparr> 1 (snd (py_tuple_make (to_python box_arg) [Ssize 2, Ssize 3] rt0)))
       = Inr \<lparr>ptr = 4\<rparr>
   \<and> ob_ival (objects (snd (py_tuple_make (to_python box_arg) [Ssize 2, Ssize 3] rt0)) 4) = 3
   \<and> fst (py_tuple_make (to_python box_arg) [Ssize 2, Broken, Ssize 3] rt0) = Inl (pyerr_occurred None)
   \<and> brk (snd (py_tuple_make (to_python box_arg) [Ssize 2, Broken, Ssize 3] rt0)) = 4"
proof -
  let ?ok = "[Ssize 2, Ssize 3]" and ?bad = "[Ssize 2, Broken, Ssize 3]"
  have nn: "brk rt0 \<noteq> NULL" and b0: "brk rt0 = 2"
    by (simp_all add: rt0_def NULL_def)
  have ok: "\<forall>a\<in>set ?ok. \<exists>ob. box_arg a = Inr ob"
    by (simp add: box_ssize_t_def)
  from make_fills_slots_in_order [OF nn, of ?ok box_arg] ok obtain s' where
    mk: "py_tuple_make (to_python box_arg) ?ok rt0 = (Inr \<lparr>ptr = brk rt0\<rparr>, s')"
    and sz: "py_tuple_size \<lparr>ptr = brk rt0\<rparr> s' = (int (length ?ok), s')"
    and it: "\<forall>i<length ?ok.
                 py_tuple_get_item \<lparr>ptr = brk rt0\<rparr> (int i) s'
                   = (Inr \<lparr>ptr = brk rt0 + 1 + i\<rparr>, Py_INCREF (brk rt0 + 1 + i) s')
               \<and> (\<forall>ob. box_arg (?ok ! i) = Inr ob \<longrightarrow>
                     objects s' (brk rt0 + 1 + i) = ob\<lparr>ob_refcnt := 1\<rparr>)"
    by blast
  from it [rule_format, of 1] have g1: "py_tuple_get_item \<lparr>ptr = brk rt0\<rparr> (int 1) s'
                   = (Inr \<lparr>ptr = brk rt0 + 1 + 1\<rparr>, Py_INCREF (brk rt0 + 1 + 1) s')"
    and o1: "\<forall>ob. box_arg (?ok ! 1) = Inr ob \<longrightarrow> objects s' (brk rt0 + 1 + 1) = ob\<lparr>ob_refcnt := 1\<rparr>"
    by simp_all
  from o1 have v1: "ob_ival (objects s' 4) = 3"
    by (simp add: b0 box_ssize_t_def new_object_def)
  have split: "?bad = [Ssize 2] @ Broken # [Ssize 3]"
    by simp
  have pre: "\<forall>b\<in>set [Ssize 2]. \<exists>ob. box_arg b = Inr ob"
    by (simp add: box_ssize_t_def)
  have bad: "box_arg Broken = Inl (pyerr_occurred None)"
    by simp
  from make_fills_slots_in_order [OF nn, of ?bad box_arg] split pre bad
  have f: "fst (py_tuple_make (to_python box_arg) ?bad rt0) = Inl (pyerr_occurred None)"
    and fb: "brk (snd (py_tuple_make (to_python box_arg) ?bad rt0)) = brk rt0 + 1 + length [Ssize 2]"
    by blast+
  from mk sz g1 v1 f fb nn show ?thesis
    by (simp add: b0)
qed

section \<open>Virtual dispatch into the interpreter\<close>

lemma dispatch_expired:
  assumes "wr_object (objects s (ptr weakref)) = Py_None"
  shows "fst (PyBase_f call to_py from_py weakref n s)
           = Inl (runtime_error ''PyBase.f(): weak reference expired!'')"
  using assms
  by (simp add: PyBase_f_def py_weakref_dereference_def borrowed_reference_def py_object_ctor_def
      is_none_def)

lemma dispatch_missing:
  assumes "wr_object (objects s (ptr weakref)) = proxy" "proxy \<noteq> NULL" "proxy \<noteq> Py_None"
    "ob_attr (objects s proxy) ''f'' = NULL"
  shows "fst (PyBase_f call to_py from_py weakref n s)
           = Inl (runtime_error ''Base.f: pure virtual, but not defined in subclass'')"
  using assms
  by (simp add: PyBase_f_def py_weakref_dereference_def borrowed_reference_def py_object_ctor_def
      is_none_def PyObject_GetAttrString_def Py_INCREF_def)

lemma dispatch_call:
  assumes w: "wr_object (objects s (ptr weakref)) = proxy" "proxy \<noteq> NULL" "proxy \<noteq> Py_None"
    and a: "ob_attr (objects s proxy) ''f'' = fp" "fp \<noteq> NULL"
    and b: "brk s \<noteq> NULL" and bx: "box n = Inr ob"
  shows "\<exists>s4. PyTuple_Check (brk s) s4
           \<and> ob_item (objects s4 (brk s)) = [brk s + 1]
           \<and> objects s4 (brk s + 1) = ob\<lparr>ob_refcnt := 1\<rparr>
           \<and> fst (PyBase_f call (to_python box) from_py weakref n s) =
               (case call fp (brk s) NULL s4 of (r, s5) \<Rightarrow>
                  if r = NULL then Inl (pyerr_occurred None)
                  else fst (from_py \<lparr>ptr = r\<rparr> (Some ''Base.f'') s5))"
proof -
  let ?s1 = "Py_INCREF proxy s"
  let ?s2 = "Py_INCREF fp ?s1"
  have d: "py_weakref_dereference weakref s = (Inr \<lparr>ptr = proxy\<rparr>, ?s1)"
    using w by (simp add: py_weakref_dereference_def borrowed_reference_def py_object_ctor_def)
  have g: "PyObject_GetAttrString proxy ''f'' ?s1 = (fp, ?s2)"
    using a by (simp add: PyObject_GetAttrString_def Py_INCREF_def)
  have nr: "new_reference fp ?s2 = (Inr \<lparr>ptr = fp\<rparr>, ?s2)"
    using a by (simp add: new_reference_def py_object_ctor_def)
  have b2: "brk ?s2 = brk s"
    by (simp add: Py_INCREF_def)
  then have nn: "brk ?s2 \<noteq> NULL"
    using b by simp
  have ok: "\<forall>a\<in>set [n]. \<exists>ob. box a = Inr ob"
    using bx by simp
  from make_success [OF nn ok] obtain s4 where
    mk: "py_tuple_make (to_python box) [n] ?s2 = (Inr \<lparr>ptr = brk ?s2\<rparr>, s4)"
    and sz: "py_tuple_size \<lparr>ptr = brk ?s2\<rparr> s4 = (int (length [n]), s4)"
    and it: "\<forall>i<length [n].
            py_tuple_get_item \<lparr>ptr = brk ?s2\<rparr> (int i) s4
              = (Inr \<lparr>ptr = brk ?s2 + 1 + i\<rparr>, Py_INCREF (brk ?s2 + 1 + i) s4)
          \<and> (\<forall>ob. box ([n] ! i) = Inr ob \<longrightarrow> objects s4 (brk ?s2 + 1 + i) = ob\<lparr>ob_refcnt := 1\<rparr>)"
    by blast
  have chk: "PyTuple_Check (brk s) s4" and len: "length (ob_item (objects s4 (brk s))) = 1"
    using sz by (auto simp: b2 py_tuple_size_def PyTuple_Size_def split: if_splits)
  from it have gi: "py_tuple_get_item \<lparr>ptr = brk s\<rparr> 0 s4
              = (Inr \<lparr>ptr = brk s + 1\<rparr>, Py_INCREF (brk s + 1) s4)"
    and o: "objects s4 (brk s + 1) = ob\<lparr>ob_refcnt := 1\<rparr>"
    using bx by (simp_all add: b2)
  have "ob_item (objects s4 (brk s)) ! 0 = brk s + 1"
    using gi chk len b
    by (auto simp: py_tuple_get_item_def PyTuple_GetItem_def borrowed_reference_def
        py_object_ctor_def split: if_splits)
  with len have items: "ob_item (objects s4 (brk s)) = [brk s + 1]"
    by (cases "ob_item (objects s4 (brk s))") auto
  have res: "fst (PyBase_f call (to_python box) from_py weakref n s) =
               (case call fp (brk s) NULL s4 of (r, s5) \<Rightarrow>
                  if r = NULL then Inl (pyerr_occurred None)
                  else fst (from_py \<lparr>ptr = r\<rparr> (Some ''Base.f'') s5))"
    using w(3) a(2)
    by (simp add: PyBase_f_def d g nr mk b2 is_none_def py_object_call_def new_reference_def
        py_object_ctor_def split: prod.splits)
  from chk items o res show ?thesis by blast
qed

text \<open>
  C3. \<^verbatim>\<open>PyBase::f\<close> throws \<^verbatim>\<open>runtime_error("PyBase.f(): weak reference
  expired!")\<close> (the spec's DanglingOverrideReference) when the weak reference yields the
  none object; it throws \<^verbatim>\<open>runtime_error("Base.f: pure virtual, but not defined in
  subclass")\<close> (the spec's OverrideNotFound) when the live proxy has no attribute
  \<^verbatim>\<open>f\<close>; and when the attribute exists, the value of \<^verbatim>\<open>f(n)\<close> is the
  result of calling the attribute on the one-element tuple holding the converted
  \<open>n\<close>, converted back with the label \<^verbatim>\<open>"Base.f"\<close> (and
  \<^verbatim>\<open>pyerr_occurred\<close> when the call returns \<^verbatim>\<open>NULL\<close>).
\<close>

theorem virtual_dispatch:
  "(wr_object (objects s (ptr weakref)) = Py_None \<longrightarrow>
      fst (PyBase_f call to_py from_py weakref n s)
        = Inl (runtime_error ''PyBase.f(): weak reference expired!''))
   \<and> (wr_object (objects s (ptr weakref)) = proxy \<and> proxy \<noteq> NULL \<and> proxy \<noteq> Py_None
        \<and> ob_attr (objects s proxy) ''f'' = NULL \<longrightarrow>
      fst (PyBase_f call to_py from_py weakref n s)
        = Inl (runtime_error ''Base.f: pure virtual, but not defined in subclass''))
   \<and> (wr_object (objects s (ptr weakref)) = proxy \<and> proxy \<noteq> NULL \<and> proxy \<noteq> Py_None
        \<and> ob_attr (objects s proxy) ''f'' = fp \<and> fp \<noteq> NULL \<and> brk s \<noteq> NULL \<and> box n = Inr ob \<longrightarrow>
      (\<exists>s4. PyTuple_Check (brk s) s4
           \<and> ob_item (objects s4 (brk s)) = [brk s + 1]
           \<and> objects s4 (brk s + 1) = ob\<lparr>ob_refcnt := 1\<rparr>
           \<and> fst (PyBase_f call (to_python box) from_py weakref n s) =
               (case call fp (brk s) NULL s4 of (r, s5) \<Rightarrow>
                  if r = NULL then Inl (pyerr_occurred None)
                  else fst (from_py \<lparr>ptr = r\<rparr> (Some ''Base.f'') s5))))"
  using dispatch_expired [of s weakref call to_py from_py n]
    dispatch_missing [of s weakref proxy call to_py from_py n]
    dispatch_call [of s weakref proxy fp box n ob call from_py]
  by blast

theorem virtual_dispatch_witness:
  "fst (PyBase_f call_identity (to_python box_ssize_t) (from_python unbox_ssize_t) \<lparr>ptr = 4\<rparr> 5
          (rt_dispatch Py_None 3))
     = Inl (runtime_error ''PyBase.f(): weak reference expired!'')
   \<and> fst (PyBase_f call_identity (to_python box_ssize_t) (from_python unbox_ssize_t) \<lparr>ptr = 4\<rparr> 5
          (rt_dispatch 2 NULL))
     = Inl (runtime_error ''Base.f: pure virtual, but not defined in subclass'')
   \<and> fst (PyBase_f call_identity (to_python box_ssize_t) (from_python unbox_ssize_t) \<lparr>ptr = 4\<rparr> 5
          (rt_dispatch 2 3))
     = Inr 5"
proof -
  let ?f = "PyBase_f call_identity (to_python box_ssize_t) (from_python unbox_ssize_t) \<lparr>ptr = 4\<rparr> 5"
  have 1: "wr_object (objects (rt_dispatch Py_None 3) (ptr \<lparr>ptr = 4\<rparr>)) = Py_None"
    by (simp add: rt_dispatch_def)
  have 2: "wr_object (objects (rt_dispatch 2 NULL) (ptr \<lparr>ptr = 4\<rparr>)) = 2 \<and> 2 \<noteq> NULL \<and> 2 \<noteq> Py_None
        \<and> ob_attr (objects (rt_dispatch 2 NULL) 2) ''f'' = NULL"
    by (simp add: rt_dispatch_def NULL_def Py_None_def)
  have 3: "wr_object (objects (rt_dispatch 2 3) (ptr \<lparr>ptr = 4\<rparr>)) = 2 \<and> 2 \<noteq> NULL \<and> 2 \<noteq> Py_None
        \<and> ob_attr (objects (rt_dispatch 2 3) 2) ''f'' = 3 \<and> 3 \<noteq> NULL \<and> brk (rt_dispatch 2 3) \<noteq> NULL
        \<and> box_ssize_t 5 = Inr ((new_object IntType)\<lparr>ob_ival := 5\<rparr>)"
    by (simp add: rt_dispatch_def NULL_def Py_None_def box_ssize_t_def)
  have a: "fst (?f (rt_dispatch Py_None 3)) = Inl (runtime_error ''PyBase.f(): weak reference expired!'')"
    using virtual_dispatch [where s = "rt_dispatch Py_None 3" and weakref = "\<lparr>ptr = 4\<rparr>"] 1 by blast
  have b: "fst (?f (rt_dispatch 2 NULL))
      = Inl (runtime_error ''Base.f: pure virtual, but not defined in subclass'')"
    using virtual_dispatch [where s = "rt_dispatch 2 NULL" and weakref = "\<lparr>ptr = 4\<rparr>" and proxy = 2] 2
    by blast
  from virtual_dispatch [where s = "rt_dispatch 2 3" and weakref = "\<lparr>ptr = 4\<rparr>" and proxy = 2
      and fp = 3 and box = box_ssize_t and n = 5 and ob = "(new_object IntType)\<lparr>ob_ival := 5\<rparr>"
      and call = call_identity and from_py = "from_python unbox_ssize_t"] 3
  obtain s4 where it: "ob_item (objects s4 (brk (rt_dispatch 2 3))) = [brk (rt_dispatch 2 3) + 1]"
    and o: "objects s4 (brk (rt_dispatch 2 3) + 1) = ((new_object IntType)\<lparr>ob_ival := 5\<rparr>)\<lparr>ob_refcnt := 1\<rparr>"
    and r: "fst (?f (rt_dispatch 2 3)) =
               (case call_identity 3 (brk (rt_dispatch 2 3)) NULL s4 of (r, s5) \<Rightarrow>
                  if r = NULL then Inl (pyerr_occurred None)
                  else fst (from_python unbox_ssize_t \<lparr>ptr = r\<rparr> (Some ''Base.f'') s5))"
    by blast
  from o have o': "objects s4 (Suc (brk (rt_dispatch 2 3)))
      = ((new_object IntType)\<lparr>ob_ival := 5\<rparr>)\<lparr>ob_refcnt := 1\<rparr>"
    by simp
  have c: "fst (?f (rt_dispatch 2 3)) = Inr 5"
    by (simp add: r call_identity_def it o' from_python_def unbox_ssize_t_def Py_INCREF_def
        new_object_def NULL_def)
  from a b c show ?thesis by simp
qed

section \<open>Converters of \<^verbatim>\<open>X\<close>\<close>

text \<open>
  C9. With the allocator handing out non-null addresses:
  \<^verbatim>\<open>converter<X>::to_python\<close> runs the copy constructor of \<^verbatim>\<open>X\<close> exactly
  once and \<^verbatim>\<open>converter<X>::from_python\<close> of its result yields a value equal to
  the one put in; \<^verbatim>\<open>converter<shared_ptr<X>>\<close> copies no \<^verbatim>\<open>X\<close>, leaves
  the native heap as it was, and the round trip returns the very holder that went in.
\<close>

theorem converter_round_trip:
  "brk s \<noteq> NULL \<Longrightarrow>
     (\<exists>obj h1 s1. converter_X_to_python v h s = (Inr obj, h1, s1)
         \<and> X_copies h1 = X_copies h + 1
         \<and> fst (converter_X_from_python obj w h1 s1) = Inr v)
   \<and> (\<exists>obj s1. converter_shared_ptr_X_to_python p h s = (Inr obj, h, s1)
         \<and> converter_shared_ptr_X_from_python obj w h s1 = (Inr p, h, s1))"
  by (simp add: converter_X_to_python_def converter_X_from_python_def
      converter_shared_ptr_X_to_python_def converter_shared_ptr_X_from_python_def
      make_shared_X_def X_ctor_copy_def extension_type_to_python_def shared_ptr_from_python_def
      alloc_def new_reference_def py_object_ctor_def new_object_def)

theorem converter_round_trip_witness:
  "brk rt0 \<noteq> NULL
   \<and> fst (converter_X_to_python \<lparr>X_x = 7\<rparr> native0 rt0) = Inr \<lparr>ptr = 2\<rparr>
   \<and> X_copies (fst (snd (converter_X_to_python \<lparr>X_x = 7\<rparr> native0 rt0))) = 1
   \<and> fst (converter_X_from_python \<lparr>ptr = 2\<rparr> None
          (fst (snd (converter_X_to_python \<lparr>X_x = 7\<rparr> native0 rt0)))
          (snd (snd (converter_X_to_python \<lparr>X_x = 7\<rparr> native0 rt0)))) = Inr \<lparr>X_x = 7\<rparr>
   \<and> fst (converter_shared_ptr_X_to_python 5 native0 rt0) = Inr \<lparr>ptr = 2\<rparr>
   \<and> fst (converter_shared_ptr_X_from_python \<lparr>ptr = 2\<rparr> None native0
          (snd (snd (converter_shared_ptr_X_to_python 5 native0 rt0)))) = Inr 5"
proof -
  have nn: "brk rt0 \<noteq> NULL" and b0: "brk rt0 = 2"
    by (simp_all add: rt0_def NULL_def)
  have c0: "X_copies native0 = 0"
    by (simp add: native0_def)
  from converter_round_trip [OF nn, of "\<lparr>X_x = 7\<rparr>" native0 None 5]
  obtain obj h1 s1 obj' s1' where
    a: "converter_X_to_python \<lparr>X_x = 7\<rparr> native0 rt0 = (Inr obj, h1, s1)"
    and b: "X_copies h1 = X_copies native0 + 1"
    and c: "fst (converter_X_from_python obj None h1 s1) = Inr \<lparr>X_x = 7\<rparr>"
    and d: "converter_shared_ptr_X_to_python 5 native0 rt0 = (Inr obj', native0, s1')"
    and e: "converter_shared_ptr_X_from_python obj' None native0 s1' = (Inr 5, native0, s1')"
    by blast
  have o: "obj = \<lparr>ptr = 2\<rparr>"
    using a by (simp add: converter_X_to_python_def make_shared_X_def X_ctor_copy_def
        extension_type_to_python_def alloc_def new_reference_def py_object_ctor_def b0 NULL_def)
  have o': "obj' = \<lparr>ptr = 2\<rparr>"
    using d by (simp add: converter_shared_ptr_X_to_python_def
        extension_type_to_python_def alloc_def new_reference_def py_object_ctor_def b0 NULL_def)
  from a b c d e o o' nn show ?thesis
    by (simp add: c0)
qed

section \<open>Where the code departs from the specification\<close>

text \<open>
  C4. \<^verbatim>\<open>set_item\<close> raises the count of \<^verbatim>\<open>x\<close> only after
  \<^verbatim>\<open>PyTuple_SetItem\<close> succeeded, but \<^verbatim>\<open>PyTuple_SetItem\<close> has taken the
  caller's reference also when it fails. In \<open>rt1\<close> with a second reference to the
  tuple at 2, position 0 is valid and \<^verbatim>\<open>PyTuple_SetItem\<close> refuses because the
  tuple is shared: \<^verbatim>\<open>set_item\<close> throws \<^verbatim>\<open>pyerr_occurred\<close>, the count of
  the int at 3 has gone from 1 to 0 and the object is freed while the caller's wrapper
  still holds it; destroying that wrapper lowers the count once more.
\<close>

theorem set_item_failure_takes_reference:
  "fst (py_tuple_set_item \<lparr>ptr = 2\<rparr> 0 \<lparr>ptr = 3\<rparr> (Py_INCREF 2 rt1)) = Inl (pyerr_occurred None)
   \<and> Py_REFCNT 3 (Py_INCREF 2 rt1) = 1
   \<and> Py_REFCNT 3 (snd (py_tuple_set_item \<lparr>ptr = 2\<rparr> 0 \<lparr>ptr = 3\<rparr> (Py_INCREF 2 rt1))) = 0
   \<and> ob_freed (objects (snd (py_tuple_set_item \<lparr>ptr = 2\<rparr> 0 \<lparr>ptr = 3\<rparr> (Py_INCREF 2 rt1))) 3)
   \<and> Py_REFCNT 3 (py_object_dtor \<lparr>ptr = 3\<rparr>
        (snd (py_tuple_set_item \<lparr>ptr = 2\<rparr> 0 \<lparr>ptr = 3\<rparr> (Py_INCREF 2 rt1)))) = - 1"
  by (simp add: host_defs wrap_defs example_defs Let_def)

text \<open>
  The same on every failing call, and the other half of the claim: a call that succeeds
  on an empty slot leaves one more reference to \<^verbatim>\<open>x\<close>, the slot's, beside the
  caller's.
\<close>

lemma set_item_failure_decrements:
  assumes "py_tuple_set_item t pos x s = (Inl (pyerr_occurred w), s')" "ptr x \<noteq> NULL"
  shows "Py_REFCNT (ptr x) s' = Py_REFCNT (ptr x) s - 1"
  using assms
  by (auto simp: py_tuple_set_item_def PyTuple_SetItem_def Py_XDECREF_def Py_DECREF_def
      Py_Dealloc_def PyErr_Set_def Py_REFCNT_def Let_def split: if_splits)

lemma set_item_success_increments:
  assumes "py_tuple_set_item t pos x s = (Inr (), s')" "ptr x \<noteq> ptr t"
    "ob_item (objects s (ptr t)) ! nat pos = NULL"
  shows "Py_REFCNT (ptr x) s' = Py_REFCNT (ptr x) s + 1
       \<and> ob_item (objects s' (ptr t)) ! nat pos = ptr x"
  using assms
  by (auto simp: py_tuple_set_item_def PyTuple_SetItem_def Py_XDECREF_def Py_INCREF_def
      Py_REFCNT_def Let_def split: if_splits)

text \<open>
  C5. Move assignment copies the pointer and then nulls the source. When source and
  target are one object (\<^verbatim>\<open>v = std::move(v)\<close>, both at location 0 of the frame),
  the object ends up holding \<^verbatim>\<open>NULL\<close>: no count has changed, but the value is
  gone and its reference is never released. That is also what happens to a
  \<^verbatim>\<open>py_tuple\<close> or \<^verbatim>\<open>py_dict\<close> assigned to itself under its own static
  type, where the implicitly declared assignment runs the \<^verbatim>\<open>py_object\<close>
  operator on the base. Reached through a \<^verbatim>\<open>py_object\<close> reference to the same
  object, \<^verbatim>\<open>py_tuple::operator=(py_object &&)\<close> and its \<^verbatim>\<open>py_dict\<close> twin
  go on to \<^verbatim>\<open>_check()\<close> and read through the null pointer.
\<close>

theorem self_move_assignment_nulls_wrapper:
  "ptr (fst (py_object_assign_move 0 0 (\<lambda>_. \<lparr>ptr = 3\<rparr>) rt1) 0) = NULL
   \<and> snd (py_object_assign_move 0 0 (\<lambda>_. \<lparr>ptr = 3\<rparr>) rt1) = rt1
   \<and> fst (py_tuple_assign_move 0 0 (\<lambda>_. \<lparr>ptr = 2\<rparr>) rt1) = Inl null_dereference
   \<and> ptr (fst (snd (py_tuple_assign_move 0 0 (\<lambda>_. \<lparr>ptr = 2\<rparr>) rt1)) 0) = NULL
   \<and> fst (py_dict_assign_move 0 0 (\<lambda>_. \<lparr>ptr = 2\<rparr>) rt1) = Inl null_dereference"
  by (simp add: host_defs wrap_defs example_defs Let_def)

text \<open>
  Copy assignment does what the claim says: assigning a wrapper to itself leaves frame
  and interpreter state as they were, for any wrapper whose handle is counted.
\<close>

lemma self_copy_assignment_intact:
  assumes "Py_REFCNT (ptr (\<sigma> v)) s \<noteq> 0"
  shows "py_object_assign_copy v v \<sigma> s = (\<sigma>, s)"
    and "ptr (\<sigma> v) \<noteq> NULL \<Longrightarrow> PyTuple_Check (ptr (\<sigma> v)) s \<Longrightarrow>
           py_tuple_assign_copy v v \<sigma> s = (Inr (), \<sigma>, s)"
    and "ptr (\<sigma> v) \<noteq> NULL \<Longrightarrow> PyDict_Check (ptr (\<sigma> v)) s \<Longrightarrow>
           py_dict_assign_copy v v \<sigma> s = (Inr (), \<sigma>, s)"
  using assms by (simp_all add: host_defs wrap_defs Let_def)

text \<open>
  C7. \<^verbatim>\<open>make_empty(n)\<close> returns what \<^verbatim>\<open>PyTuple_New(n)\<close> allocated and
  stores nothing in it. For \<open>n = 1\<close> in \<open>rt0\<close>: the tuple at address 2 has one slot,
  the slot holds \<^verbatim>\<open>NULL\<close>, not the none object, and \<^verbatim>\<open>get_item(0)\<close> on it
  throws \<^verbatim>\<open>pyerr_occurred\<close>.
\<close>

theorem make_empty_slots_are_null:
  "fst (py_tuple_make_empty 1 rt0) = Inr \<lparr>ptr = 2\<rparr>
   \<and> ob_item (objects (snd (py_tuple_make_empty 1 rt0)) 2) = [NULL]
   \<and> NULL \<noteq> Py_None
   \<and> fst (py_tuple_get_item \<lparr>ptr = 2\<rparr> 0 (snd (py_tuple_make_empty 1 rt0)))
       = Inl (pyerr_occurred None)"
  by (simp add: host_defs wrap_defs example_defs Let_def)

text \<open>For every \<open>n\<close>: exactly \<open>n\<close> slots, each \<^verbatim>\<open>NULL\<close>.\<close>

lemma make_empty_all_null:
  assumes "brk s \<noteq> NULL"
  shows "\<exists>s'. py_tuple_make_empty (int n) s = (Inr \<lparr>ptr = brk s\<rparr>, s')
           \<and> ob_item (objects s' (brk s)) = replicate n NULL
           \<and> py_tuple_size \<lparr>ptr = brk s\<rparr> s' = (int n, s')"
  using assms
  by (simp add: make_empty_fresh empty_tuple_def py_tuple_size_def PyTuple_Size_def
      PyTuple_Check_def new_object_def)

lemma make_empty_negative:
  "n < 0 \<Longrightarrow> fst (py_tuple_make_empty n s) = Inl (pyerr_occurred None)"
  by (simp add: py_tuple_make_empty_def PyTuple_New_def new_reference_def py_object_ctor_def)

text \<open>
  C8. The view constructors take a label \<^verbatim>\<open>where\<close> and call
  \<^verbatim>\<open>this->_check()\<close> without it. Building a tuple view, or a dict view, of the none
  object with the label \<^verbatim>\<open>"make_array"\<close> fails with the mismatch condition, and
  the condition carries no label. The failed construction leaves the interpreter state
  as it was.
\<close>

theorem view_constructor_drops_label:
  "py_tuple_ctor_copy \<lparr>ptr = Py_None\<rparr> (Some ''make_array'') rt0 = (Inl (TypeMismatch None), rt0)
   \<and> py_tuple_ctor_move \<lparr>ptr = Py_None\<rparr> (Some ''make_array'') rt0 = (Inl (TypeMismatch None), rt0)
   \<and> py_dict_ctor_copy \<lparr>ptr = Py_None\<rparr> (Some ''make_array'') rt0 = (Inl (TypeMismatch None), rt0)
   \<and> py_dict_ctor_move \<lparr>ptr = Py_None\<rparr> (Some ''make_array'') rt0 = (Inl (TypeMismatch None), rt0)
   \<and> TypeMismatch None \<noteq> TypeMismatch (Some ''make_array'')"
  by (simp add: host_defs wrap_defs example_defs Let_def fun_upd_idem)

text \<open>
  The rest of the claim holds: every view constructor and every view assignment checks
  the tag of the handle it ends up with, and a handle of the wrong type is answered with
  the mismatch condition, never with \<^verbatim>\<open>pyerr_occurred\<close>.
\<close>

lemma view_constructor_checks_tag:
  assumes "ptr x \<noteq> NULL"
  shows "fst (py_tuple_ctor_copy x w s) = (if PyTuple_Check (ptr x) s then Inr x else Inl (TypeMismatch None))"
    and "fst (py_tuple_ctor_move x w s) = (if PyTuple_Check (ptr x) s then Inr x else Inl (TypeMismatch None))"
    and "fst (py_dict_ctor_copy x w s) = (if PyDict_Check (ptr x) s then Inr x else Inl (TypeMismatch None))"
    and "fst (py_dict_ctor_move x w s) = (if PyDict_Check (ptr x) s then Inr x else Inl (TypeMismatch None))"
  using assms by (simp_all add: host_defs wrap_defs)

lemma view_assignment_checks_tag:
  assumes "ptr (\<sigma> x) \<noteq> NULL" "this \<noteq> x" "ptr (\<sigma> this) \<noteq> ptr (\<sigma> x)"
  shows "fst (py_tuple_assign_copy this x \<sigma> s)
           = (if PyTuple_Check (ptr (\<sigma> x)) s then Inr () else Inl (TypeMismatch None))"
    and "fst (py_tuple_assign_move this x \<sigma> s)
           = (if PyTuple_Check (ptr (\<sigma> x)) s then Inr () else Inl (TypeMismatch None))"
    and "fst (py_dict_assign_copy this x \<sigma> s)
           = (if PyDict_Check (ptr (\<sigma> x)) s then Inr () else Inl (TypeMismatch None))"
    and "fst (py_dict_assign_move this x \<sigma> s)
           = (if PyDict_Check (ptr (\<sigma> x)) s then Inr () else Inl (TypeMismatch None))"
  using assms by (simp_all add: host_defs wrap_defs Let_def)

end
